theory Spec2Isabelle
  imports Main
begin

section \<open>Values, middleware calls and errors\<close>

text \<open>
  The class \<open>ROS2Interface\<close> is a facade over the external library \<open>rclnodejs\<close>.
  JavaScript values that cross the boundary are modelled by \<open>val\<close>: the two nullish
  values, booleans, numbers, strings, and objects by identity (publisher, subscription,
  client, goal-handle, node and message objects are all \<open>Obj\<close>).
\<close>

datatype val = Undefined | Null | Bool bool | Num int | Str string | Obj nat

text \<open>JavaScript truthiness, as used by \<open>!x\<close> in the source.\<close>

fun truthy :: "val \<Rightarrow> bool" where
  "truthy Undefined = False"
| "truthy Null = False"
| "truthy (Bool b) = b"
| "truthy (Num n) = (n \<noteq> 0)"
| "truthy (Str s) = (s \<noteq> [])"
| "truthy (Obj n) = True"

text \<open>
  Every call the facade makes into \<open>rclnodejs\<close>. A method call carries its receiver
  first; the remaining arguments are in the order of the source.
\<close>

datatype call =
    RclInit
  | RclNode string string
  | Spin val int
  | CreatePublisher val string string
  | Publish val val
  | CreateSubscription val string string val
  | DestroySubscription val val
  | CreateClient val string string
  | WaitForService val val
  | SendRequest val val
  | NewActionClient val string string
  | WaitForServer val val
  | SendGoal val val val
  | IsAccepted val
  | GetResult val
  | HasParameter val string
  | DeclareParameter val string val
  | NewParameter string val
  | SetParameter val val
  | GetParameter val string
  | ReadValue val
  | Destroy val
  | RclShutdown

text \<open>
  A middleware call either returns a value (for an awaited promise: resolves with it) or
  throws (rejects) with a message. The middleware itself is not part of the repository:
  it is a parameter \<open>mw\<close>, an arbitrary function of the calls made so far and the
  call being made. Awaited promises are assumed to settle, and the operations run to
  completion one after another: the class takes no lock and relies on sequential
  access, so no interleaving at an \<open>await\<close> is modelled.
\<close>

datatype outcome = Returns val | Throws string

type_synonym middleware = "call list \<Rightarrow> call \<Rightarrow> outcome"

text \<open>
  Each \<open>new Error(...)\<close> of the source is one constructor; an exception of the
  middleware that the facade does not catch is \<open>Underlying\<close>.
\<close>

datatype error =
    NotInitialized
  | InitializationFailed string
  | ServiceUnavailable string
  | ActionServerUnavailable string
  | GoalRejected
  | Underlying string

fun settle :: "outcome \<Rightarrow> error + val" where
  "settle (Returns v) = Inr v"
| "settle (Throws m) = Inl (Underlying m)"

section \<open>The session\<close>

text \<open>
  The fields of \<open>ROS2Interface\<close>, and \<open>trace\<close>, the history of middleware calls
  (not a field of the class: it records the side effects on the collaborator).
\<close>

record session =
  nodeName :: string
  namespace :: string
  spinTimeout :: int
  node :: val
  publishers :: "string \<rightharpoonup> val"
  subscriptions :: "string \<rightharpoonup> val set"
  clients :: "string \<rightharpoonup> val"
  actionClients :: "string \<rightharpoonup> val"
  isInitialized :: bool
  trace :: "call list"

text \<open>The constructor; its defaults are \<open>'ros2_interface_node'\<close>, \<open>'/'\<close> and \<open>100\<close>.\<close>

definition ROS2Interface :: "string \<Rightarrow> string \<Rightarrow> int \<Rightarrow> session" where
  "ROS2Interface name ns timeout =
     \<lparr> nodeName = name, namespace = ns, spinTimeout = timeout, node = Null,
       publishers = Map.empty, subscriptions = Map.empty, clients = Map.empty,
       actionClients = Map.empty, isInitialized = False, trace = [] \<rparr>"

definition default_session :: session where
  "default_session = ROS2Interface ''ros2_interface_node'' ''/'' 100"

text \<open>
  A call of a function of the library (\<open>rclnodejs.init()\<close>, a constructor): the
  middleware decides the outcome and the call is recorded.
\<close>

definition static :: "middleware \<Rightarrow> call \<Rightarrow> session \<Rightarrow> outcome \<times> session" where
  "static mw c s = (mw (trace s) c, s\<lparr>trace := trace s @ [c]\<rparr>)"

text \<open>
  A method call \<open>recv.m(...)\<close>: on anything but an object JavaScript raises a
  \<open>TypeError\<close> and the middleware is not entered.
\<close>

definition invoke :: "middleware \<Rightarrow> val \<Rightarrow> call \<Rightarrow> session \<Rightarrow> outcome \<times> session" where
  "invoke mw recv c s =
     (case recv of Obj k \<Rightarrow> static mw c s | _ \<Rightarrow> (Throws ''TypeError'', s))"

section \<open>Lifecycle\<close>

text \<open>\<open>init\<close>, source lines 126 to 143; \<open>console.info\<close> is not modelled.\<close>

definition init :: "middleware \<Rightarrow> session \<Rightarrow> (error + val) \<times> session" where
  "init mw s =
     (if isInitialized s then (Inr Undefined, s)
      else case static mw RclInit s of
        (Throws m, s1) \<Rightarrow> (Inl (InitializationFailed m), s1)
      | (Returns u, s1) \<Rightarrow>
          (case static mw (RclNode (nodeName s1) (namespace s1)) s1 of
             (Throws m, s2) \<Rightarrow> (Inl (InitializationFailed m), s2)
           | (Returns n, s2) \<Rightarrow>
               (let s3 = s2\<lparr>node := n\<rparr> in
                case invoke mw (node s3) (Spin (node s3) (spinTimeout s3)) s3 of
                  (Throws m, s4) \<Rightarrow> (Inl (InitializationFailed m), s4)
                | (Returns u', s4) \<Rightarrow> (Inr Undefined, s4\<lparr>isInitialized := True\<rparr>))))"

text \<open>\<open>_checkInit\<close>, lines 151 to 155: \<open>True\<close> when it throws.\<close>

definition checkInit_fails :: "session \<Rightarrow> bool" where
  "checkInit_fails s = (\<not> isInitialized s \<or> \<not> truthy (node s))"

text \<open>\<open>shutdown\<close>, lines 368 to 381.\<close>

definition shutdown :: "middleware \<Rightarrow> session \<Rightarrow> (error + val) \<times> session" where
  "shutdown mw s =
     (if \<not> isInitialized s then (Inr Undefined, s)
      else
        let s1 = s\<lparr>publishers := Map.empty, subscriptions := Map.empty,
                   clients := Map.empty, actionClients := Map.empty\<rparr> in
        case invoke mw (node s1) (Destroy (node s1)) s1 of
          (Throws m, s2) \<Rightarrow> (Inl (Underlying m), s2)
        | (Returns u, s2) \<Rightarrow>
            (case static mw RclShutdown s2 of
               (Throws m, s3) \<Rightarrow> (Inl (Underlying m), s3)
             | (Returns u', s3) \<Rightarrow>
                 (Inr Undefined, s3\<lparr>node := Null, isInitialized := False\<rparr>)))"

section \<open>Topics\<close>

text \<open>\<open>createPublisher\<close>, lines 168 to 177.\<close>

definition createPublisher ::
  "middleware \<Rightarrow> string \<Rightarrow> string \<Rightarrow> session \<Rightarrow> (error + val) \<times> session" where
  "createPublisher mw topicName msgType s =
     (if checkInit_fails s then (Inl NotInitialized, s)
      else case publishers s topicName of
        Some p \<Rightarrow> (Inr p, s)
      | None \<Rightarrow>
          (case invoke mw (node s) (CreatePublisher (node s) msgType topicName) s of
             (Throws m, s1) \<Rightarrow> (Inl (Underlying m), s1)
           | (Returns p, s1) \<Rightarrow>
               (Inr p, s1\<lparr>publishers := (publishers s1)(topicName \<mapsto> p)\<rparr>)))"

text \<open>\<open>publish\<close>, lines 186 to 189.\<close>

definition publish ::
  "middleware \<Rightarrow> string \<Rightarrow> string \<Rightarrow> val \<Rightarrow> session \<Rightarrow> (error + val) \<times> session" where
  "publish mw topicName msgType message s =
     (case createPublisher mw topicName msgType s of
        (Inl e, s1) \<Rightarrow> (Inl e, s1)
      | (Inr publisher, s1) \<Rightarrow>
          (case invoke mw publisher (Publish publisher message) s1 of
             (Throws m, s2) \<Rightarrow> (Inl (Underlying m), s2)
           | (Returns u, s2) \<Rightarrow> (Inr Undefined, s2)))"

text \<open>
  \<open>subscribe\<close>, lines 201 to 216. The per-topic \<open>Set\<close> is a set of values: a
  JavaScript \<open>Set\<close> holds an object once.
\<close>

definition subscribe ::
  "middleware \<Rightarrow> string \<Rightarrow> string \<Rightarrow> val \<Rightarrow> session \<Rightarrow> (error + val) \<times> session" where
  "subscribe mw topicName msgType callback s =
     (if checkInit_fails s then (Inl NotInitialized, s)
      else case invoke mw (node s)
                  (CreateSubscription (node s) msgType topicName callback) s of
        (Throws m, s1) \<Rightarrow> (Inl (Underlying m), s1)
      | (Returns subscription, s1) \<Rightarrow>
          (let subs = (case subscriptions s1 topicName of None \<Rightarrow> {} | Some S \<Rightarrow> S)
           in (Inr subscription,
               s1\<lparr>subscriptions :=
                    (subscriptions s1)(topicName \<mapsto> insert subscription subs)\<rparr>)))"

text \<open>\<open>unsubscribe\<close>, lines 224 to 234. There is no call of \<open>_checkInit\<close>.\<close>

definition unsubscribe ::
  "middleware \<Rightarrow> string \<Rightarrow> val \<Rightarrow> session \<Rightarrow> (error + val) \<times> session" where
  "unsubscribe mw topicName subscription s =
     (case subscriptions s topicName of
        None \<Rightarrow> (Inr Undefined, s)
      | Some subs \<Rightarrow>
          if subscription \<notin> subs then (Inr Undefined, s)
          else (case invoke mw (node s) (DestroySubscription (node s) subscription) s of
                  (Throws m, s1) \<Rightarrow> (Inl (Underlying m), s1)
                | (Returns u, s1) \<Rightarrow>
                    (let subs' = subs - {subscription} in
                     if subs' = {}
                     then (Inr Undefined,
                           s1\<lparr>subscriptions := (subscriptions s1)(topicName := None)\<rparr>)
                     else (Inr Undefined,
                           s1\<lparr>subscriptions := (subscriptions s1)(topicName \<mapsto> subs')\<rparr>))))"

section \<open>Services and actions\<close>

text \<open>A default parameter \<open>timeoutMs = 2000\<close> applies when the argument is \<open>undefined\<close>.\<close>

definition timeoutMs_default :: "val \<Rightarrow> val" where
  "timeoutMs_default t = (if t = Undefined then Num 2000 else t)"

text \<open>\<open>Map.get\<close>: \<open>undefined\<close> for a missing key.\<close>

definition map_get :: "(string \<rightharpoonup> val) \<Rightarrow> string \<Rightarrow> val" where
  "map_get m k = (case m k of None \<Rightarrow> Undefined | Some v \<Rightarrow> v)"

text \<open>\<open>callService\<close>, lines 249 to 264.\<close>

definition callService ::
  "middleware \<Rightarrow> string \<Rightarrow> string \<Rightarrow> val \<Rightarrow> val \<Rightarrow> session \<Rightarrow> (error + val) \<times> session" where
  "callService mw serviceName serviceType request timeoutMs s =
     (if checkInit_fails s then (Inl NotInitialized, s)
      else
        case (if truthy (map_get (clients s) serviceName)
              then (Returns (map_get (clients s) serviceName), s)
              else case invoke mw (node s) (CreateClient (node s) serviceType serviceName) s of
                     (Throws m, s1) \<Rightarrow> (Throws m, s1)
                   | (Returns c, s1) \<Rightarrow>
                       (Returns c, s1\<lparr>clients := (clients s1)(serviceName \<mapsto> c)\<rparr>)) of
          (Throws m, s2) \<Rightarrow> (Inl (Underlying m), s2)
        | (Returns client, s2) \<Rightarrow>
            (case invoke mw client
                    (WaitForService client (timeoutMs_default timeoutMs)) s2 of
               (Throws m, s3) \<Rightarrow> (Inl (Underlying m), s3)
             | (Returns available, s3) \<Rightarrow>
                 if \<not> truthy available then (Inl (ServiceUnavailable serviceName), s3)
                 else (case invoke mw client (SendRequest client request) s3 of
                         (r, s4) \<Rightarrow> (settle r, s4))))"

text \<open>\<open>sendActionGoal\<close>, lines 280 to 311.\<close>

definition sendActionGoal ::
  "middleware \<Rightarrow> string \<Rightarrow> string \<Rightarrow> val \<Rightarrow> val \<Rightarrow> val \<Rightarrow> session \<Rightarrow>
   (error + val) \<times> session" where
  "sendActionGoal mw actionName actionType goal onFeedback timeoutMs s =
     (if checkInit_fails s then (Inl NotInitialized, s)
      else
        case (if truthy (map_get (actionClients s) actionName)
              then (Returns (map_get (actionClients s) actionName), s)
              else case static mw (NewActionClient (node s) actionType actionName) s of
                     (Throws m, s1) \<Rightarrow> (Throws m, s1)
                   | (Returns c, s1) \<Rightarrow>
                       (Returns c, s1\<lparr>actionClients := (actionClients s1)(actionName \<mapsto> c)\<rparr>)) of
          (Throws m, s2) \<Rightarrow> (Inl (Underlying m), s2)
        | (Returns client, s2) \<Rightarrow>
            (case invoke mw client
                    (WaitForServer client (timeoutMs_default timeoutMs)) s2 of
               (Throws m, s3) \<Rightarrow> (Inl (Underlying m), s3)
             | (Returns ready, s3) \<Rightarrow>
                 if \<not> truthy ready then (Inl (ActionServerUnavailable actionName), s3)
                 else (case invoke mw client (SendGoal client goal onFeedback) s3 of
                   (Throws m, s4) \<Rightarrow> (Inl (Underlying m), s4)
                 | (Returns goalHandle, s4) \<Rightarrow>
                     (case invoke mw goalHandle (IsAccepted goalHandle) s4 of
                        (Throws m, s5) \<Rightarrow> (Inl (Underlying m), s5)
                      | (Returns accepted, s5) \<Rightarrow>
                          if \<not> truthy accepted then (Inl GoalRejected, s5)
                          else (case invoke mw goalHandle (GetResult goalHandle) s5 of
                                  (r, s6) \<Rightarrow> (settle r, s6))))))"

section \<open>Parameters\<close>

text \<open>\<open>declareParam\<close>, lines 323 to 329.\<close>

definition declareParam ::
  "middleware \<Rightarrow> string \<Rightarrow> val \<Rightarrow> session \<Rightarrow> (error + val) \<times> session" where
  "declareParam mw name defaultValue s =
     (if checkInit_fails s then (Inl NotInitialized, s)
      else case invoke mw (node s) (HasParameter (node s) name) s of
        (Throws m, s1) \<Rightarrow> (Inl (Underlying m), s1)
      | (Returns present, s1) \<Rightarrow>
          if \<not> truthy present
          then (case invoke mw (node s1) (DeclareParameter (node s1) name defaultValue) s1 of
                  (Throws m, s2) \<Rightarrow> (Inl (Underlying m), s2)
                | (Returns u, s2) \<Rightarrow> (Inr Undefined, s2))
          else (Inr Undefined, s1))"

text \<open>\<open>setParam\<close>, lines 337 to 346: the \<open>Parameter\<close> object is built, then set.\<close>

definition setParam ::
  "middleware \<Rightarrow> string \<Rightarrow> val \<Rightarrow> session \<Rightarrow> (error + val) \<times> session" where
  "setParam mw name v s =
     (if checkInit_fails s then (Inl NotInitialized, s)
      else case static mw (NewParameter name v) s of
        (Throws m, s1) \<Rightarrow> (Inl (Underlying m), s1)
      | (Returns p, s1) \<Rightarrow>
          (case invoke mw (node s1) (SetParameter (node s1) p) s1 of
             (Throws m, s2) \<Rightarrow> (Inl (Underlying m), s2)
           | (Returns u, s2) \<Rightarrow> (Inr Undefined, s2)))"

text \<open>
  \<open>getParam\<close>, lines 354 to 357: \<open>?.value\<close> gives \<open>undefined\<close> for a nullish
  parameter and reads the property otherwise (a primitive has no such property).
\<close>

definition getParam ::
  "middleware \<Rightarrow> string \<Rightarrow> session \<Rightarrow> (error + val) \<times> session" where
  "getParam mw name s =
     (if checkInit_fails s then (Inl NotInitialized, s)
      else case invoke mw (node s) (GetParameter (node s) name) s of
        (Throws m, s1) \<Rightarrow> (Inl (Underlying m), s1)
      | (Returns p, s1) \<Rightarrow>
          (case p of
             Obj k \<Rightarrow> (case static mw (ReadValue p) s1 of (r, s2) \<Rightarrow> (settle r, s2))
           | _ \<Rightarrow> (Inr Undefined, s1)))"

section \<open>Sequences of operations\<close>

datatype op =
    Init
  | Shutdown
  | CreatePublisherOp string string
  | PublishOp string string val
  | SubscribeOp string string val
  | UnsubscribeOp string val
  | CallServiceOp string string val val
  | SendActionGoalOp string string val val val
  | DeclareParamOp string val
  | SetParamOp string val
  | GetParamOp string

fun exec :: "middleware \<Rightarrow> op \<Rightarrow> session \<Rightarrow> (error + val) \<times> session" where
  "exec mw Init s = init mw s"
| "exec mw Shutdown s = shutdown mw s"
| "exec mw (CreatePublisherOp t ty) s = createPublisher mw t ty s"
| "exec mw (PublishOp t ty m) s = publish mw t ty m s"
| "exec mw (SubscribeOp t ty cb) s = subscribe mw t ty cb s"
| "exec mw (UnsubscribeOp t h) s = unsubscribe mw t h s"
| "exec mw (CallServiceOp n ty r t) s = callService mw n ty r t s"
| "exec mw (SendActionGoalOp n ty g f t) s = sendActionGoal mw n ty g f t s"
| "exec mw (DeclareParamOp n v) s = declareParam mw n v s"
| "exec mw (SetParamOp n v) s = setParam mw n v s"
| "exec mw (GetParamOp n) s = getParam mw n s"

text \<open>The session after a sequence of calls, and the results of the calls in order.\<close>

fun run :: "middleware \<Rightarrow> op list \<Rightarrow> session \<Rightarrow> session" where
  "run mw [] s = s"
| "run mw (x # xs) s = run mw xs (snd (exec mw x s))"

fun results :: "middleware \<Rightarrow> op list \<Rightarrow> session \<Rightarrow> (error + val) list" where
  "results mw [] s = []"
| "results mw (x # xs) s = fst (exec mw x s) # results mw xs (snd (exec mw x s))"

section \<open>A sample middleware\<close>

text \<open>
  A collaborator for the closed examples: every service and action server is available,
  every goal is accepted, a parameter is present once it has been declared, and every
  other call returns a fresh object. \<open>mw_with\<close> overrides the outcome of chosen calls.
\<close>

fun declares :: "string \<Rightarrow> call \<Rightarrow> bool" where
  "declares name (DeclareParameter n nm v) = (nm = name)"
| "declares name c = False"

fun mw_sample :: middleware where
  "mw_sample tr (WaitForService c t) = Returns (Bool True)"
| "mw_sample tr (WaitForServer c t) = Returns (Bool True)"
| "mw_sample tr (IsAccepted g) = Returns (Bool True)"
| "mw_sample tr (HasParameter n name) = Returns (Bool (list_ex (declares name) tr))"
| "mw_sample tr c = Returns (Obj (length tr))"

definition mw_with :: "(call \<Rightarrow> outcome option) \<Rightarrow> middleware" where
  "mw_with f tr c = (case f c of Some r \<Rightarrow> r | None \<Rightarrow> mw_sample tr c)"

text \<open>
  A collaborator whose dispatch loop cannot be started and whose context can be
  established once only, and overrides that fail context establishment and node creation.
\<close>

fun mw_spin_fails :: middleware where
  "mw_spin_fails tr (Spin n t) = Throws ''spin failed''"
| "mw_spin_fails tr RclInit =
     (if RclInit \<in> set tr then Throws ''context already initialized'' else Returns Undefined)"
| "mw_spin_fails tr c = mw_sample tr c"

fun fail_init :: "call \<Rightarrow> outcome option" where
  "fail_init RclInit = Some (Throws ''no context'')"
| "fail_init c = None"

fun fail_node :: "call \<Rightarrow> outcome option" where
  "fail_node (RclNode a b) = Some (Throws ''no node'')"
| "fail_node c = None"

text \<open>
  Overrides: no service or action server becomes available; every goal is rejected.
\<close>

fun unavailable :: "call \<Rightarrow> outcome option" where
  "unavailable (WaitForService c t) = Some (Returns (Bool False))"
| "unavailable (WaitForServer c t) = Some (Returns (Bool False))"
| "unavailable c = None"

fun rejecting :: "call \<Rightarrow> outcome option" where
  "rejecting (IsAccepted g) = Some (Returns (Bool False))"
| "rejecting c = None"

section \<open>Predicates of the statements\<close>

text \<open>
  The operations that start with \<open>_checkInit\<close> (\<open>publish\<close> through
  \<open>createPublisher\<close>): all but \<open>init\<close>, \<open>shutdown\<close> and \<open>unsubscribe\<close>.
\<close>

fun guarded :: "op \<Rightarrow> bool" where
  "guarded Init = False"
| "guarded Shutdown = False"
| "guarded (UnsubscribeOp t h) = False"
| "guarded x = True"

fun is_obj :: "val \<Rightarrow> bool" where
  "is_obj (Obj k) = True"
| "is_obj v = False"

definition caches_empty :: "session \<Rightarrow> bool" where
  "caches_empty s =
     (publishers s = Map.empty \<and> subscriptions s = Map.empty \<and>
      clients s = Map.empty \<and> actionClients s = Map.empty)"

text \<open>
  An initialized session holds a node object; an uninitialized one has empty caches.
\<close>

definition session_inv :: "session \<Rightarrow> bool" where
  "session_inv s = (if isInitialized s then is_obj (node s) else caches_empty s)"

section \<open>Auxiliary lemmas\<close>

lemma snd_static: "snd (static mw c s) = s\<lparr>trace := trace s @ [c]\<rparr>"
  by (simp add: static_def)

lemma fst_static: "fst (static mw c s) = mw (trace s) c"
  by (simp add: static_def)

lemma snd_invoke:
  "snd (invoke mw recv c s) = (if is_obj recv then s\<lparr>trace := trace s @ [c]\<rparr> else s)"
  by (cases recv) (simp_all add: invoke_def static_def)

lemma fst_invoke:
  "fst (invoke mw recv c s) = (if is_obj recv then mw (trace s) c else Throws ''TypeError'')"
  by (cases recv) (simp_all add: invoke_def static_def)

lemmas call_simps = snd_static fst_static snd_invoke fst_invoke split_beta Let_def

lemmas inv_defs = checkInit_fails_def session_inv_def caches_empty_def

lemma is_obj_truthy: "is_obj v \<Longrightarrow> truthy v"
  by (cases v) simp_all

lemma init_inv: "session_inv s \<Longrightarrow> session_inv (snd (init mw s))"
  by (simp add: init_def inv_defs call_simps split: outcome.splits if_splits)

lemma shutdown_inv: "session_inv s \<Longrightarrow> session_inv (snd (shutdown mw s))"
  by (simp add: shutdown_def inv_defs call_simps split: outcome.splits if_splits)

lemma createPublisher_inv: "session_inv s \<Longrightarrow> session_inv (snd (createPublisher mw t ty s))"
  by (simp add: createPublisher_def inv_defs call_simps
           split: outcome.splits option.splits if_splits)

lemma publish_inv: "session_inv s \<Longrightarrow> session_inv (snd (publish mw t ty m s))"
  by (simp add: publish_def createPublisher_def inv_defs call_simps
           split: outcome.splits option.splits sum.splits if_splits)

lemma subscribe_inv: "session_inv s \<Longrightarrow> session_inv (snd (subscribe mw t ty cb s))"
  by (simp add: subscribe_def inv_defs call_simps
           split: outcome.splits option.splits if_splits)

lemma unsubscribe_inv: "session_inv s \<Longrightarrow> session_inv (snd (unsubscribe mw t h s))"
  by (simp add: unsubscribe_def inv_defs call_simps
           split: outcome.splits option.splits if_splits)

lemma callService_inv: "session_inv s \<Longrightarrow> session_inv (snd (callService mw n ty r t s))"
  by (simp add: callService_def inv_defs call_simps
           split: outcome.splits option.splits if_splits)

lemma sendActionGoal_inv:
  "session_inv s \<Longrightarrow> session_inv (snd (sendActionGoal mw n ty g f t s))"
  by (simp add: sendActionGoal_def inv_defs call_simps
           split: outcome.splits option.splits if_splits)

lemma declareParam_inv: "session_inv s \<Longrightarrow> session_inv (snd (declareParam mw n v s))"
  by (simp add: declareParam_def inv_defs call_simps
           split: outcome.splits option.splits if_splits)

lemma setParam_inv: "session_inv s \<Longrightarrow> session_inv (snd (setParam mw n v s))"
  by (simp add: setParam_def inv_defs call_simps
           split: outcome.splits option.splits if_splits)

lemma getParam_inv: "session_inv s \<Longrightarrow> session_inv (snd (getParam mw n s))"
  by (simp add: getParam_def inv_defs call_simps
           split: outcome.splits option.splits val.splits if_splits)

lemma exec_inv: "session_inv s \<Longrightarrow> session_inv (snd (exec mw x s))"
  by (cases x) (simp_all add: init_inv shutdown_inv createPublisher_inv publish_inv
      subscribe_inv unsubscribe_inv callService_inv sendActionGoal_inv declareParam_inv
      setParam_inv getParam_inv)

lemma run_inv: "session_inv s \<Longrightarrow> session_inv (run mw xs s)"
  by (induction xs arbitrary: s) (simp_all add: exec_inv)

lemma new_inv: "session_inv (ROS2Interface n ns t)"
  by (simp add: session_inv_def caches_empty_def ROS2Interface_def)

lemma reachable_inv: "session_inv (run mw xs (ROS2Interface n ns t))"
  by (rule run_inv [OF new_inv])

lemma reachable_node:
  "isInitialized (run mw xs (ROS2Interface n ns t)) \<Longrightarrow>
   is_obj (node (run mw xs (ROS2Interface n ns t)))"
  using reachable_inv [of mw xs n ns t] by (simp add: session_inv_def)

lemma reachable_caches:
  "\<not> isInitialized (run mw xs (ROS2Interface n ns t)) \<Longrightarrow>
   caches_empty (run mw xs (ROS2Interface n ns t))"
  using reachable_inv [of mw xs n ns t] by (simp add: session_inv_def)

lemma guarded_uninit:
  "\<not> isInitialized s \<Longrightarrow> guarded x \<Longrightarrow> exec mw x s = (Inl NotInitialized, s)"
  by (cases x)
     (simp_all add: createPublisher_def publish_def subscribe_def callService_def
        sendActionGoal_def declareParam_def setParam_def getParam_def checkInit_fails_def)

lemma unsubscribe_no_entry:
  "subscriptions s topicName = None \<Longrightarrow> unsubscribe mw topicName h s = (Inr Undefined, s)"
  by (simp add: unsubscribe_def)

lemma init_keeps_caches: "caches_empty s \<Longrightarrow> caches_empty (snd (init mw s))"
  by (simp add: init_def caches_empty_def call_simps split: outcome.splits)

lemma shutdown_clears: "isInitialized s \<Longrightarrow> caches_empty (snd (shutdown mw s))"
  by (simp add: shutdown_def caches_empty_def call_simps split: outcome.splits)

lemma shutdown_uninit: "\<not> isInitialized s \<Longrightarrow> shutdown mw s = (Inr Undefined, s)"
  by (simp add: shutdown_def)

lemma shutdown_ok:
  "isInitialized s \<Longrightarrow> is_obj (node s) \<Longrightarrow>
   mw (trace s) (Destroy (node s)) = Returns u \<Longrightarrow>
   mw (trace s @ [Destroy (node s)]) RclShutdown = Returns u' \<Longrightarrow>
   shutdown mw s =
     (Inr Undefined,
      s\<lparr>node := Null, publishers := Map.empty, subscriptions := Map.empty,
        clients := Map.empty, actionClients := Map.empty, isInitialized := False,
        trace := trace s @ [Destroy (node s), RclShutdown]\<rparr>)"
  by (cases "node s") (simp_all add: shutdown_def invoke_def static_def)

text \<open>Evaluation of the operations on concrete sessions.\<close>

lemmas op_defs = init_def shutdown_def createPublisher_def publish_def subscribe_def
  unsubscribe_def callService_def sendActionGoal_def declareParam_def setParam_def
  getParam_def checkInit_fails_def static_def invoke_def map_get_def timeoutMs_default_def
  ROS2Interface_def default_session_def mw_with_def Let_def

lemma small_nats:
  "(2::nat) = Suc (Suc 0)" "(3::nat) = Suc (Suc (Suc 0))"
  "(4::nat) = Suc (Suc (Suc (Suc 0)))" "(5::nat) = Suc (Suc (Suc (Suc (Suc 0))))"
  "(6::nat) = Suc (Suc (Suc (Suc (Suc (Suc 0)))))"
  "(7::nat) = Suc (Suc (Suc (Suc (Suc (Suc (Suc 0))))))"
  by simp_all

text \<open>The operations on an initialized session, step by step.\<close>

lemma createPublisher_hit:
  "isInitialized s \<Longrightarrow> truthy (node s) \<Longrightarrow> publishers s topicName = Some h \<Longrightarrow>
   createPublisher mw topicName ty s = (Inr h, s)"
  by (simp add: createPublisher_def checkInit_fails_def)

lemma createPublisher_miss:
  "isInitialized s \<Longrightarrow> is_obj (node s) \<Longrightarrow> publishers s topicName = None \<Longrightarrow>
   mw (trace s) (CreatePublisher (node s) ty topicName) = Returns h \<Longrightarrow>
   createPublisher mw topicName ty s =
     (Inr h, s\<lparr>publishers := (publishers s)(topicName \<mapsto> h),
               trace := trace s @ [CreatePublisher (node s) ty topicName]\<rparr>)"
  by (cases "node s") (simp_all add: createPublisher_def checkInit_fails_def invoke_def static_def)

lemma createPublisher_cached_seq:
  "isInitialized s \<Longrightarrow> truthy (node s) \<Longrightarrow> publishers s topicName = Some h \<Longrightarrow>
   results mw (map (CreatePublisherOp topicName) tys) s = replicate (length tys) (Inr h) \<and>
   run mw (map (CreatePublisherOp topicName) tys) s = s"
  by (induction tys) (simp_all add: createPublisher_hit)

lemma unsubscribe_hit:
  "subscriptions s topicName = Some subs \<Longrightarrow> h \<in> subs \<Longrightarrow> is_obj (node s) \<Longrightarrow>
   mw (trace s) (DestroySubscription (node s) h) = Returns u \<Longrightarrow>
   unsubscribe mw topicName h s =
     (Inr Undefined,
      s\<lparr>subscriptions :=
           (if subs - {h} = {} then (subscriptions s)(topicName := None)
            else (subscriptions s)(topicName \<mapsto> subs - {h})),
        trace := trace s @ [DestroySubscription (node s) h]\<rparr>)"
  by (cases "node s") (simp_all add: unsubscribe_def invoke_def static_def Let_def)

lemma unsubscribe_miss:
  "\<forall>subs. subscriptions s topicName = Some subs \<longrightarrow> h \<notin> subs \<Longrightarrow>
   unsubscribe mw topicName h s = (Inr Undefined, s)"
  by (simp add: unsubscribe_def split: option.splits)

lemma declareParam_present:
  "isInitialized s \<Longrightarrow> is_obj (node s) \<Longrightarrow>
   mw (trace s) (HasParameter (node s) name) = Returns p \<Longrightarrow> truthy p \<Longrightarrow>
   declareParam mw name v s =
     (Inr Undefined, s\<lparr>trace := trace s @ [HasParameter (node s) name]\<rparr>)"
  by (cases "node s") (simp_all add: declareParam_def checkInit_fails_def invoke_def static_def)

lemma declareParam_absent:
  "isInitialized s \<Longrightarrow> is_obj (node s) \<Longrightarrow>
   mw (trace s) (HasParameter (node s) name) = Returns p \<Longrightarrow> \<not> truthy p \<Longrightarrow>
   declareParam mw name v s =
     (case mw (trace s @ [HasParameter (node s) name]) (DeclareParameter (node s) name v) of
        Returns u \<Rightarrow> Inr Undefined
      | Throws m \<Rightarrow> Inl (Underlying m),
      s\<lparr>trace := trace s @ [HasParameter (node s) name, DeclareParameter (node s) name v]\<rparr>)"
  by (cases "node s")
     (simp_all add: declareParam_def checkInit_fails_def invoke_def static_def
        split: outcome.splits)

lemma callService_body:
  assumes "isInitialized s" and "is_obj (node s)"
    and "clients s name = Some c \<and> s1 = s \<or>
         clients s name = None \<and>
         mw (trace s) (CreateClient (node s) ty name) = Returns c \<and>
         s1 = s\<lparr>clients := (clients s)(name \<mapsto> c),
                 trace := trace s @ [CreateClient (node s) ty name]\<rparr>"
    and "is_obj c"
    and "mw (trace s1) (WaitForService c (timeoutMs_default tmo)) = Returns a"
  shows "callService mw name ty req tmo s =
     (if truthy a
      then (settle (mw (trace s1 @ [WaitForService c (timeoutMs_default tmo)])
                      (SendRequest c req)),
            s1\<lparr>trace := trace s1 @ [WaitForService c (timeoutMs_default tmo),
                                     SendRequest c req]\<rparr>)
      else (Inl (ServiceUnavailable name),
            s1\<lparr>trace := trace s1 @ [WaitForService c (timeoutMs_default tmo)]\<rparr>))"
proof -
  from assms(2) have tn: "truthy (node s)" by (rule is_obj_truthy)
  from assms(4) have tc: "truthy c" by (rule is_obj_truthy)
  from assms(3) show ?thesis
  proof
    assume "clients s name = Some c \<and> s1 = s"
    with assms tn tc show ?thesis
      by (simp add: callService_def checkInit_fails_def map_get_def call_simps)
  next
    assume "clients s name = None \<and>
         mw (trace s) (CreateClient (node s) ty name) = Returns c \<and>
         s1 = s\<lparr>clients := (clients s)(name \<mapsto> c),
                 trace := trace s @ [CreateClient (node s) ty name]\<rparr>"
    with assms(1,2,4,5) tn tc show ?thesis
      by (simp add: callService_def checkInit_fails_def map_get_def call_simps)
  qed
qed

lemma sendActionGoal_prefix:
  assumes "isInitialized s" and "is_obj (node s)"
    and "actionClients s name = Some c \<and> s1 = s \<or>
         actionClients s name = None \<and>
         mw (trace s) (NewActionClient (node s) ty name) = Returns c \<and>
         s1 = s\<lparr>actionClients := (actionClients s)(name \<mapsto> c),
                 trace := trace s @ [NewActionClient (node s) ty name]\<rparr>"
    and "is_obj c"
    and "mw (trace s1) (WaitForServer c (timeoutMs_default tmo)) = Returns r" and "truthy r"
  shows "sendActionGoal mw name ty goal fb tmo s =
     (case mw (trace s1 @ [WaitForServer c (timeoutMs_default tmo)]) (SendGoal c goal fb) of
        Throws m \<Rightarrow>
          (Inl (Underlying m),
           s1\<lparr>trace := trace s1 @ [WaitForServer c (timeoutMs_default tmo),
                                    SendGoal c goal fb]\<rparr>)
      | Returns g \<Rightarrow>
          (case invoke mw g (IsAccepted g)
                  (s1\<lparr>trace := trace s1 @ [WaitForServer c (timeoutMs_default tmo),
                                           SendGoal c goal fb]\<rparr>) of
             (Throws m, s5) \<Rightarrow> (Inl (Underlying m), s5)
           | (Returns accepted, s5) \<Rightarrow>
               if \<not> truthy accepted then (Inl GoalRejected, s5)
               else (case invoke mw g (GetResult g) s5 of (res, s6) \<Rightarrow> (settle res, s6))))"
proof -
  from assms(2) have tn: "truthy (node s)" by (rule is_obj_truthy)
  from assms(4) have tc: "truthy c" by (rule is_obj_truthy)
  from assms(3) show ?thesis
  proof
    assume "actionClients s name = Some c \<and> s1 = s"
    with assms tn tc show ?thesis
      by (simp add: sendActionGoal_def checkInit_fails_def map_get_def call_simps
               split: outcome.splits)
  next
    assume "actionClients s name = None \<and>
         mw (trace s) (NewActionClient (node s) ty name) = Returns c \<and>
         s1 = s\<lparr>actionClients := (actionClients s)(name \<mapsto> c),
                 trace := trace s @ [NewActionClient (node s) ty name]\<rparr>"
    with assms(1,2,4,5,6) tn tc show ?thesis
      by (simp add: sendActionGoal_def checkInit_fails_def map_get_def call_simps
               split: outcome.splits)
  qed
qed

lemma settle_cases:
  "(\<exists>v. settle r = Inr v) \<or> settle r = Inl GoalRejected \<or>
   (\<exists>m. settle r = Inl (Underlying m))"
  by (cases r) simp_all

section \<open>Properties\<close>

text \<open>
  C1 (amended). On a session that is not initialized, each of \<open>createPublisher\<close>,
  \<open>publish\<close>, \<open>subscribe\<close>, \<open>callService\<close>, \<open>sendActionGoal\<close>,
  \<open>declareParam\<close>, \<open>setParam\<close> and \<open>getParam\<close> fails with the not-initialized
  error and leaves the session and the history of middleware calls untouched.
  \<open>unsubscribe\<close> has no such guard: in every uninitialized state the session can
  reach (before \<open>init\<close>, after \<open>shutdown\<close>, after a failed \<open>init\<close>) it returns
  without error, and it too leaves session and history untouched.
\<close>

theorem uninitialized_operations:
  "(\<not> isInitialized s \<and> guarded x \<longrightarrow> exec mw x s = (Inl NotInitialized, s)) \<and>
   (\<not> isInitialized (run mw ops (ROS2Interface n ns t)) \<longrightarrow>
      exec mw (UnsubscribeOp topicName h) (run mw ops (ROS2Interface n ns t)) =
        (Inr Undefined, run mw ops (ROS2Interface n ns t)))"
proof (intro conjI impI)
  assume "\<not> isInitialized s \<and> guarded x"
  then show "exec mw x s = (Inl NotInitialized, s)"
    by (simp add: guarded_uninit)
next
  let ?s = "run mw ops (ROS2Interface n ns t)"
  assume "\<not> isInitialized ?s"
  then have "caches_empty ?s" by (rule reachable_caches)
  then have "subscriptions ?s topicName = None" by (simp add: caches_empty_def)
  then show "exec mw (UnsubscribeOp topicName h) ?s = (Inr Undefined, ?s)"
    by (simp add: unsubscribe_no_entry)
qed

theorem uninitialized_operations_witness:
  "\<not> isInitialized default_session \<and>
   guarded (PublishOp ''/chatter'' ''std_msgs/msg/String'' (Obj 9)) \<and>
   exec mw_sample (PublishOp ''/chatter'' ''std_msgs/msg/String'' (Obj 9)) default_session =
     (Inl NotInitialized, default_session) \<and>
   \<not> isInitialized (run mw_sample [Init, Shutdown] (ROS2Interface ''gui'' ''/'' 100)) \<and>
   exec mw_sample (UnsubscribeOp ''/chatter'' (Obj 3))
       (run mw_sample [Init, Shutdown] (ROS2Interface ''gui'' ''/'' 100)) =
     (Inr Undefined, run mw_sample [Init, Shutdown] (ROS2Interface ''gui'' ''/'' 100))"
proof -
  have a: "\<not> isInitialized default_session"
    by (simp add: op_defs)
  have b: "\<not> isInitialized (run mw_sample [Init, Shutdown] (ROS2Interface ''gui'' ''/'' 100))"
    by (simp add: op_defs)
  show ?thesis
    using a b
      uninitialized_operations [of default_session
        "PublishOp ''/chatter'' ''std_msgs/msg/String'' (Obj 9)" mw_sample
        "[Init, Shutdown]" "''gui''" "''/''" 100 "''/chatter''" "Obj 3"]
    by simp
qed

text \<open>
  The specification lists \<open>unsubscribe\<close> among the operations that fail when the
  session is not initialized. It does not: after \<open>init\<close>, \<open>subscribe\<close> and
  \<open>shutdown\<close> the session is uninitialized, and \<open>unsubscribe\<close> of the former
  handle returns \<open>undefined\<close>; so it does on a new session.
\<close>

theorem unsubscribe_unguarded_counterexample:
  "\<not> isInitialized
       (run mw_sample [Init, SubscribeOp ''/chatter'' ''std_msgs/msg/String'' (Obj 50), Shutdown]
          default_session) \<and>
   fst (exec mw_sample (UnsubscribeOp ''/chatter'' (Obj 3))
          (run mw_sample [Init, SubscribeOp ''/chatter'' ''std_msgs/msg/String'' (Obj 50), Shutdown]
             default_session)) = Inr Undefined \<and>
   fst (exec mw_sample (UnsubscribeOp ''/chatter'' (Obj 3)) default_session) \<noteq> Inl NotInitialized"
  by (simp add: op_defs)

text \<open>
  C2. In every state \<open>s\<close> reachable from a new session by the operations of the
  class, whatever the middleware does: if \<open>s\<close> is not initialized, all four
  caches are empty and \<open>shutdown\<close> changes nothing; if \<open>s\<close> is initialized,
  \<open>shutdown\<close> leaves all four caches empty, and when node destruction and context
  teardown return it makes exactly these two middleware calls, sets the node to
  \<open>null\<close> and the session to uninitialized; afterwards every guarded operation
  fails with the not-initialized error, and the caches are still empty after a new
  \<open>init\<close>.
\<close>

theorem caches_only_while_initialized:
  assumes "s = run mw ops (ROS2Interface n ns t)"
  shows
    "(\<not> isInitialized s \<longrightarrow> caches_empty s \<and> shutdown mw s = (Inr Undefined, s)) \<and>
     (isInitialized s \<longrightarrow>
        caches_empty (snd (shutdown mw s)) \<and>
        (mw (trace s) (Destroy (node s)) = Returns u \<and>
         mw (trace s @ [Destroy (node s)]) RclShutdown = Returns u' \<longrightarrow>
           shutdown mw s =
             (Inr Undefined,
              s\<lparr>node := Null, publishers := Map.empty, subscriptions := Map.empty,
                clients := Map.empty, actionClients := Map.empty, isInitialized := False,
                trace := trace s @ [Destroy (node s), RclShutdown]\<rparr>) \<and>
           (\<forall>x. guarded x \<longrightarrow>
              exec mw x (snd (shutdown mw s)) = (Inl NotInitialized, snd (shutdown mw s))) \<and>
           caches_empty (snd (init mw (snd (shutdown mw s))))))"
proof (intro conjI impI)
  assume "\<not> isInitialized s"
  then show "caches_empty s" using assms reachable_caches by simp
next
  assume "\<not> isInitialized s"
  then show "shutdown mw s = (Inr Undefined, s)" by (rule shutdown_uninit)
next
  assume "isInitialized s"
  then show "caches_empty (snd (shutdown mw s))" by (rule shutdown_clears)
next
  assume i: "isInitialized s"
    and r: "mw (trace s) (Destroy (node s)) = Returns u \<and>
            mw (trace s @ [Destroy (node s)]) RclShutdown = Returns u'"
  from i assms have o: "is_obj (node s)" using reachable_node by simp
  show e: "shutdown mw s =
             (Inr Undefined,
              s\<lparr>node := Null, publishers := Map.empty, subscriptions := Map.empty,
                clients := Map.empty, actionClients := Map.empty, isInitialized := False,
                trace := trace s @ [Destroy (node s), RclShutdown]\<rparr>)"
    using i o r by (simp add: shutdown_ok)
  show "\<forall>x. guarded x \<longrightarrow>
          exec mw x (snd (shutdown mw s)) = (Inl NotInitialized, snd (shutdown mw s))"
    by (simp add: e guarded_uninit)
  show "caches_empty (snd (init mw (snd (shutdown mw s))))"
    using i by (intro init_keeps_caches shutdown_clears)
qed

theorem caches_only_while_initialized_witness:
  "\<not> isInitialized (run mw_sample [] (ROS2Interface ''gui'' ''/'' 100)) \<and>
   caches_empty (run mw_sample [] (ROS2Interface ''gui'' ''/'' 100)) \<and>
   isInitialized
     (run mw_sample [Init, PublishOp ''/chatter'' ''std_msgs/msg/String'' (Obj 9)]
        (ROS2Interface ''gui'' ''/'' 100)) \<and>
   publishers
     (run mw_sample [Init, PublishOp ''/chatter'' ''std_msgs/msg/String'' (Obj 9)]
        (ROS2Interface ''gui'' ''/'' 100)) ''/chatter'' = Some (Obj 3) \<and>
   shutdown mw_sample
     (run mw_sample [Init, PublishOp ''/chatter'' ''std_msgs/msg/String'' (Obj 9)]
        (ROS2Interface ''gui'' ''/'' 100)) =
     (Inr Undefined,
      (ROS2Interface ''gui'' ''/'' 100)
        \<lparr>trace := [RclInit, RclNode ''gui'' ''/'', Spin (Obj 1) 100,
                   CreatePublisher (Obj 1) ''std_msgs/msg/String'' ''/chatter'',
                   Publish (Obj 3) (Obj 9), Destroy (Obj 1), RclShutdown]\<rparr>) \<and>
   exec mw_sample (GetParamOp ''rate'')
     (snd (shutdown mw_sample
        (run mw_sample [Init, PublishOp ''/chatter'' ''std_msgs/msg/String'' (Obj 9)]
           (ROS2Interface ''gui'' ''/'' 100)))) =
     (Inl NotInitialized,
      snd (shutdown mw_sample
        (run mw_sample [Init, PublishOp ''/chatter'' ''std_msgs/msg/String'' (Obj 9)]
           (ROS2Interface ''gui'' ''/'' 100))))"
proof -
  let ?new = "ROS2Interface ''gui'' ''/'' 100"
  let ?cur = "run mw_sample [Init, PublishOp ''/chatter'' ''std_msgs/msg/String'' (Obj 9)] ?new"
  have s: "?cur = ?new\<lparr>node := Obj 1, publishers := [''/chatter'' \<mapsto> Obj 3],
                     isInitialized := True,
                     trace := [RclInit, RclNode ''gui'' ''/'', Spin (Obj 1) 100,
                       CreatePublisher (Obj 1) ''std_msgs/msg/String'' ''/chatter'',
                       Publish (Obj 3) (Obj 9)]\<rparr>"
    by (simp add: op_defs small_nats)
  have g: "guarded (GetParamOp ''rate'')" by simp
  have r: "mw_sample (trace ?cur) (Destroy (node ?cur)) = Returns (Obj 5) \<and>
           mw_sample (trace ?cur @ [Destroy (node ?cur)]) RclShutdown = Returns (Obj 6)"
    unfolding s by (simp add: small_nats)
  have i: "isInitialized ?cur" unfolding s by simp
  have p: "publishers ?cur ''/chatter'' = Some (Obj 3)" unfolding s by simp
  have u: "\<not> isInitialized (run mw_sample [] ?new)" by (simp add: op_defs)
  note U = caches_only_while_initialized [OF refl, of mw_sample "[]" "''gui''" "''/''" 100,
      THEN conjunct1, THEN mp, OF u, THEN conjunct1]
  note T = caches_only_while_initialized [OF refl, of mw_sample
      "[Init, PublishOp ''/chatter'' ''std_msgs/msg/String'' (Obj 9)]" "''gui''" "''/''" 100
      "Obj 5" "Obj 6", THEN conjunct2, THEN mp, OF i, THEN conjunct2, THEN mp, OF r]
  note sh = T [THEN conjunct1]
  note ge = T [THEN conjunct2, THEN conjunct1, THEN spec, THEN mp, OF g]
  have sh': "shutdown mw_sample ?cur =
     (Inr Undefined,
      ?new\<lparr>trace := [RclInit, RclNode ''gui'' ''/'', Spin (Obj 1) 100,
                   CreatePublisher (Obj 1) ''std_msgs/msg/String'' ''/chatter'',
                   Publish (Obj 3) (Obj 9), Destroy (Obj 1), RclShutdown]\<rparr>)"
    unfolding sh unfolding s by (simp add: ROS2Interface_def)
  show ?thesis
    apply (intro conjI)
    apply (rule u U i p sh' ge)+
    done
qed

text \<open>
  C3. On an initialized session reached from a new one, for any list of message types,
  calling \<open>createPublisher\<close> with one topic name once per type: if the topic had no
  publisher and the middleware returns the handle \<open>h\<close> to the first call, every call
  returns \<open>h\<close> and the middleware history grows by exactly that one creation, made
  with the first call's type; if the topic already had the publisher \<open>h\<close>, every
  call returns \<open>h\<close> and neither the session nor the history changes.
\<close>

theorem createPublisher_once:
  assumes "s = run mw ops (ROS2Interface n ns t)" and "isInitialized s"
  shows
    "(publishers s topicName = None \<and>
      mw (trace s) (CreatePublisher (node s) ty topicName) = Returns h \<longrightarrow>
        results mw (map (CreatePublisherOp topicName) (ty # tys)) s =
          replicate (Suc (length tys)) (Inr h) \<and>
        run mw (map (CreatePublisherOp topicName) (ty # tys)) s =
          s\<lparr>publishers := (publishers s)(topicName \<mapsto> h),
            trace := trace s @ [CreatePublisher (node s) ty topicName]\<rparr>) \<and>
     (publishers s topicName = Some h \<longrightarrow>
        results mw (map (CreatePublisherOp topicName) tys) s = replicate (length tys) (Inr h) \<and>
        run mw (map (CreatePublisherOp topicName) tys) s = s)"
proof -
  from assms have o: "is_obj (node s)" using reachable_node by simp
  then have tn: "truthy (node s)" by (rule is_obj_truthy)
  show ?thesis
  proof (intro conjI impI)
    assume a: "publishers s topicName = None \<and>
               mw (trace s) (CreatePublisher (node s) ty topicName) = Returns h"
    let ?s1 = "s\<lparr>publishers := (publishers s)(topicName \<mapsto> h),
                  trace := trace s @ [CreatePublisher (node s) ty topicName]\<rparr>"
    from a assms(2) o have first: "createPublisher mw topicName ty s = (Inr h, ?s1)"
      by (simp add: createPublisher_miss)
    have rest: "results mw (map (CreatePublisherOp topicName) tys) ?s1 =
                  replicate (length tys) (Inr h) \<and>
                run mw (map (CreatePublisherOp topicName) tys) ?s1 = ?s1"
      using assms(2) tn by (intro createPublisher_cached_seq) simp_all
    show "results mw (map (CreatePublisherOp topicName) (ty # tys)) s =
            replicate (Suc (length tys)) (Inr h)"
      using first rest by simp
    show "run mw (map (CreatePublisherOp topicName) (ty # tys)) s = ?s1"
      using first rest by simp
  next
    assume "publishers s topicName = Some h"
    with assms(2) tn
    have c: "results mw (map (CreatePublisherOp topicName) tys) s = replicate (length tys) (Inr h) \<and>
          run mw (map (CreatePublisherOp topicName) tys) s = s"
      by (intro createPublisher_cached_seq)
    from c show "results mw (map (CreatePublisherOp topicName) tys) s = replicate (length tys) (Inr h)"
      by simp
    from c show "run mw (map (CreatePublisherOp topicName) tys) s = s" by simp
  qed
qed

theorem createPublisher_once_witness:
  "isInitialized (run mw_sample [Init] (ROS2Interface ''gui'' ''/'' 100)) \<and>
   publishers (run mw_sample [Init] (ROS2Interface ''gui'' ''/'' 100)) ''/chatter'' = None \<and>
   mw_sample (trace (run mw_sample [Init] (ROS2Interface ''gui'' ''/'' 100)))
     (CreatePublisher (node (run mw_sample [Init] (ROS2Interface ''gui'' ''/'' 100)))
        ''std_msgs/msg/String'' ''/chatter'') = Returns (Obj 3) \<and>
   results mw_sample
     (map (CreatePublisherOp ''/chatter'') [''std_msgs/msg/String'', ''std_msgs/msg/Int32''])
     (run mw_sample [Init] (ROS2Interface ''gui'' ''/'' 100)) = [Inr (Obj 3), Inr (Obj 3)] \<and>
   trace (run mw_sample
     (map (CreatePublisherOp ''/chatter'') [''std_msgs/msg/String'', ''std_msgs/msg/Int32''])
     (run mw_sample [Init] (ROS2Interface ''gui'' ''/'' 100))) =
     [RclInit, RclNode ''gui'' ''/'', Spin (Obj 1) 100,
      CreatePublisher (Obj 1) ''std_msgs/msg/String'' ''/chatter''] \<and>
   isInitialized
     (run mw_sample [Init, PublishOp ''/chatter'' ''std_msgs/msg/String'' (Obj 9)]
        (ROS2Interface ''gui'' ''/'' 100)) \<and>
   publishers
     (run mw_sample [Init, PublishOp ''/chatter'' ''std_msgs/msg/String'' (Obj 9)]
        (ROS2Interface ''gui'' ''/'' 100)) ''/chatter'' = Some (Obj 3) \<and>
   results mw_sample (map (CreatePublisherOp ''/chatter'') [''std_msgs/msg/Int32''])
     (run mw_sample [Init, PublishOp ''/chatter'' ''std_msgs/msg/String'' (Obj 9)]
        (ROS2Interface ''gui'' ''/'' 100)) = [Inr (Obj 3)] \<and>
   run mw_sample (map (CreatePublisherOp ''/chatter'') [''std_msgs/msg/Int32''])
     (run mw_sample [Init, PublishOp ''/chatter'' ''std_msgs/msg/String'' (Obj 9)]
        (ROS2Interface ''gui'' ''/'' 100)) =
     run mw_sample [Init, PublishOp ''/chatter'' ''std_msgs/msg/String'' (Obj 9)]
        (ROS2Interface ''gui'' ''/'' 100)"
proof -
  let ?new = "ROS2Interface ''gui'' ''/'' 100"
  let ?cur = "run mw_sample [Init] ?new"
  have st: "?cur = ?new\<lparr>node := Obj 1, isInitialized := True,
                       trace := [RclInit, RclNode ''gui'' ''/'', Spin (Obj 1) 100]\<rparr>"
    by (simp add: op_defs)
  have i: "isInitialized ?cur" unfolding st by simp
  have p: "publishers ?cur ''/chatter'' = None" unfolding st by (simp add: ROS2Interface_def)
  have c: "mw_sample (trace ?cur)
     (CreatePublisher (node ?cur) ''std_msgs/msg/String'' ''/chatter'') = Returns (Obj 3)"
    unfolding st by (simp add: small_nats)
  have pc: "publishers ?cur ''/chatter'' = None \<and> mw_sample (trace ?cur)
     (CreatePublisher (node ?cur) ''std_msgs/msg/String'' ''/chatter'') = Returns (Obj 3)"
    using p c by (rule conjI)
  note T = createPublisher_once [OF refl i, where topicName = "''/chatter''"
      and ty = "''std_msgs/msg/String''" and h = "Obj 3" and tys = "[''std_msgs/msg/Int32'']",
      THEN conjunct1, THEN mp, OF pc]
  have r: "results mw_sample
     (map (CreatePublisherOp ''/chatter'') [''std_msgs/msg/String'', ''std_msgs/msg/Int32''])
     ?cur = [Inr (Obj 3), Inr (Obj 3)]"
    unfolding T [THEN conjunct1] by (simp add: small_nats)
  have tr: "trace (run mw_sample
     (map (CreatePublisherOp ''/chatter'') [''std_msgs/msg/String'', ''std_msgs/msg/Int32''])
     ?cur) =
     [RclInit, RclNode ''gui'' ''/'', Spin (Obj 1) 100,
      CreatePublisher (Obj 1) ''std_msgs/msg/String'' ''/chatter'']"
    unfolding T [THEN conjunct2] unfolding st by simp
  let ?nxt = "run mw_sample [Init, PublishOp ''/chatter'' ''std_msgs/msg/String'' (Obj 9)] ?new"
  have st': "?nxt = ?new\<lparr>node := Obj 1, publishers := [''/chatter'' \<mapsto> Obj 3],
                       isInitialized := True,
                       trace := [RclInit, RclNode ''gui'' ''/'', Spin (Obj 1) 100,
                         CreatePublisher (Obj 1) ''std_msgs/msg/String'' ''/chatter'',
                         Publish (Obj 3) (Obj 9)]\<rparr>"
    by (simp add: op_defs small_nats)
  have i': "isInitialized ?nxt" unfolding st' by simp
  have p': "publishers ?nxt ''/chatter'' = Some (Obj 3)" unfolding st' by simp
  note U = createPublisher_once [OF refl i', where topicName = "''/chatter''"
      and h = "Obj 3" and tys = "[''std_msgs/msg/Int32'']",
      THEN conjunct2, THEN mp, OF p']
  have r': "results mw_sample (map (CreatePublisherOp ''/chatter'') [''std_msgs/msg/Int32''])
              ?nxt = [Inr (Obj 3)]"
    unfolding U [THEN conjunct1] by simp
  show ?thesis
    by (intro conjI i p c r tr i' p' r' U [THEN conjunct2])
qed

text \<open>
  C4 (amended). \<open>init\<close> on an uninitialized session: when context establishment
  throws, or node creation throws, the call fails with the initialization-failed error
  carrying the message of the cause, and every field of the session is as before (a
  session that held no node handle holds none). When starting the dispatch loop throws,
  the call fails the same way and the session stays uninitialized, with the node handle
  just created in its \<open>node\<close> field. Whenever \<open>init\<close> fails, the error is the
  initialization-failed error, the session is uninitialized and the caches are unchanged.
\<close>

theorem init_failure:
  "\<not> isInitialized s \<longrightarrow>
   (mw (trace s) RclInit = Throws m \<longrightarrow>
      init mw s = (Inl (InitializationFailed m), s\<lparr>trace := trace s @ [RclInit]\<rparr>)) \<and>
   (mw (trace s) RclInit = Returns u \<and>
    mw (trace s @ [RclInit]) (RclNode (nodeName s) (namespace s)) = Throws m \<longrightarrow>
      init mw s = (Inl (InitializationFailed m),
                   s\<lparr>trace := trace s @ [RclInit, RclNode (nodeName s) (namespace s)]\<rparr>)) \<and>
   (mw (trace s) RclInit = Returns u \<and>
    mw (trace s @ [RclInit]) (RclNode (nodeName s) (namespace s)) = Returns (Obj k) \<and>
    mw (trace s @ [RclInit, RclNode (nodeName s) (namespace s)])
       (Spin (Obj k) (spinTimeout s)) = Throws m \<longrightarrow>
      init mw s = (Inl (InitializationFailed m),
                   s\<lparr>node := Obj k,
                     trace := trace s @ [RclInit, RclNode (nodeName s) (namespace s),
                                         Spin (Obj k) (spinTimeout s)]\<rparr>)) \<and>
   (case fst (init mw s) of
      Inl e \<Rightarrow> (\<exists>cause. e = InitializationFailed cause) \<and>
               \<not> isInitialized (snd (init mw s)) \<and>
               publishers (snd (init mw s)) = publishers s \<and>
               subscriptions (snd (init mw s)) = subscriptions s \<and>
               clients (snd (init mw s)) = clients s \<and>
               actionClients (snd (init mw s)) = actionClients s
    | Inr v \<Rightarrow> isInitialized (snd (init mw s)))"
  by (simp add: init_def call_simps split: outcome.splits)

theorem init_failure_witness:
  "\<not> isInitialized default_session \<and>
   mw_with fail_init (trace default_session) RclInit = Throws ''no context'' \<and>
   init (mw_with fail_init) default_session =
     (Inl (InitializationFailed ''no context''), default_session\<lparr>trace := [RclInit]\<rparr>) \<and>
   mw_with fail_node (trace default_session) RclInit = Returns (Obj 0) \<and>
   mw_with fail_node (trace default_session @ [RclInit])
     (RclNode (nodeName default_session) (namespace default_session)) = Throws ''no node'' \<and>
   init (mw_with fail_node) default_session =
     (Inl (InitializationFailed ''no node''),
      default_session\<lparr>trace := [RclInit, RclNode ''ros2_interface_node'' ''/'']\<rparr>) \<and>
   mw_spin_fails (trace default_session) RclInit = Returns Undefined \<and>
   mw_spin_fails (trace default_session @ [RclInit])
     (RclNode (nodeName default_session) (namespace default_session)) = Returns (Obj 1) \<and>
   mw_spin_fails
     (trace default_session @
        [RclInit, RclNode (nodeName default_session) (namespace default_session)])
     (Spin (Obj 1) (spinTimeout default_session)) = Throws ''spin failed'' \<and>
   init mw_spin_fails default_session =
     (Inl (InitializationFailed ''spin failed''),
      default_session\<lparr>node := Obj 1,
        trace := [RclInit, RclNode ''ros2_interface_node'' ''/'', Spin (Obj 1) 100]\<rparr>)"
proof -
  have a: "\<not> isInitialized default_session"
    by (simp add: op_defs)
  have b: "mw_with fail_init (trace default_session) RclInit = Throws ''no context''"
    by (simp add: op_defs)
  have c: "mw_with fail_node (trace default_session) RclInit = Returns (Obj 0)"
    "mw_with fail_node (trace default_session @ [RclInit])
       (RclNode (nodeName default_session) (namespace default_session)) = Throws ''no node''"
    by (simp_all add: op_defs)
  have d: "mw_spin_fails (trace default_session) RclInit = Returns Undefined"
    "mw_spin_fails (trace default_session @ [RclInit])
       (RclNode (nodeName default_session) (namespace default_session)) = Returns (Obj 1)"
    "mw_spin_fails
       (trace default_session @
          [RclInit, RclNode (nodeName default_session) (namespace default_session)])
       (Spin (Obj 1) (spinTimeout default_session)) = Throws ''spin failed''"
    by (simp_all add: op_defs)
  have e: "nodeName default_session = ''ros2_interface_node''"
    "namespace default_session = ''/''" "spinTimeout default_session = 100"
    "trace default_session = []"
    by (simp_all add: op_defs)
  show ?thesis
    using a b c d
      init_failure [of default_session "mw_with fail_init" "''no context''"]
      init_failure [of default_session "mw_with fail_node" "''no node''" "Obj 0"]
      init_failure [of default_session mw_spin_fails "''spin failed''" Undefined 1]
    by (simp add: e)
qed

text \<open>
  The specification promises that no node handle is held after a failed \<open>init\<close>.
  With a dispatch loop that fails to start, \<open>init\<close> fails and the session holds the
  node it created; a second \<open>init\<close>, which fails in context establishment, still
  leaves that handle in place.
\<close>

theorem init_partial_node_counterexample:
  "results mw_spin_fails [Init, Init] default_session =
     [Inl (InitializationFailed ''spin failed''),
      Inl (InitializationFailed ''context already initialized'')] \<and>
   node (run mw_spin_fails [Init] default_session) = Obj 1 \<and>
   \<not> isInitialized (run mw_spin_fails [Init] default_session) \<and>
   node (run mw_spin_fails [Init, Init] default_session) = Obj 1 \<and>
   \<not> isInitialized (run mw_spin_fails [Init, Init] default_session)"
  by (simp add: op_defs)

text \<open>
  C5. \<open>callService\<close> on an initialized session reached from a new one, with the
  client object \<open>c\<close> taken from the cache or created and cached just now, and the
  availability wait returning \<open>a\<close>: if \<open>a\<close> is falsy the call fails with the
  service-unavailable error and the history ends with the wait, so no request is sent;
  if \<open>a\<close> is truthy the history ends with the wait and one \<open>sendRequest\<close>, and the
  call settles as that request does (its response, or its failure unchanged).
\<close>

theorem callService_availability:
  assumes "s = run mw ops (ROS2Interface n ns t)" and "isInitialized s"
    and "clients s name = Some c \<and> s1 = s \<or>
         clients s name = None \<and>
         mw (trace s) (CreateClient (node s) ty name) = Returns c \<and>
         s1 = s\<lparr>clients := (clients s)(name \<mapsto> c),
                 trace := trace s @ [CreateClient (node s) ty name]\<rparr>"
    and "is_obj c"
    and "mw (trace s1) (WaitForService c (timeoutMs_default tmo)) = Returns a"
  shows "callService mw name ty req tmo s =
     (if truthy a
      then (settle (mw (trace s1 @ [WaitForService c (timeoutMs_default tmo)])
                      (SendRequest c req)),
            s1\<lparr>trace := trace s1 @ [WaitForService c (timeoutMs_default tmo),
                                     SendRequest c req]\<rparr>)
      else (Inl (ServiceUnavailable name),
            s1\<lparr>trace := trace s1 @ [WaitForService c (timeoutMs_default tmo)]\<rparr>))"
proof -
  from assms(1,2) have o: "is_obj (node s)" using reachable_node by simp
  show ?thesis by (rule callService_body [OF assms(2) o assms(3) assms(4) assms(5)])
qed

theorem callService_availability_witness:
  "isInitialized (run mw_sample [Init] (ROS2Interface ''gui'' ''/'' 100)) \<and>
   clients (run mw_sample [Init] (ROS2Interface ''gui'' ''/'' 100)) ''/add'' = None \<and>
   is_obj (Obj 3) \<and> truthy (Bool True) \<and>
   callService mw_sample ''/add'' ''srv/AddTwoInts'' (Obj 70) Undefined
     (run mw_sample [Init] (ROS2Interface ''gui'' ''/'' 100)) =
     (Inr (Obj 5),
      (ROS2Interface ''gui'' ''/'' 100)
        \<lparr>node := Obj 1, clients := [''/add'' \<mapsto> Obj 3], isInitialized := True,
         trace := [RclInit, RclNode ''gui'' ''/'', Spin (Obj 1) 100,
                   CreateClient (Obj 1) ''srv/AddTwoInts'' ''/add'',
                   WaitForService (Obj 3) (Num 2000), SendRequest (Obj 3) (Obj 70)]\<rparr>) \<and>
   isInitialized (run (mw_with unavailable) [Init] (ROS2Interface ''gui'' ''/'' 100)) \<and>
   clients (run (mw_with unavailable) [Init] (ROS2Interface ''gui'' ''/'' 100)) ''/add'' = None \<and>
   \<not> truthy (Bool False) \<and>
   callService (mw_with unavailable) ''/add'' ''srv/AddTwoInts'' (Obj 70) (Num 500)
     (run (mw_with unavailable) [Init] (ROS2Interface ''gui'' ''/'' 100)) =
     (Inl (ServiceUnavailable ''/add''),
      (ROS2Interface ''gui'' ''/'' 100)
        \<lparr>node := Obj 1, clients := [''/add'' \<mapsto> Obj 3], isInitialized := True,
         trace := [RclInit, RclNode ''gui'' ''/'', Spin (Obj 1) 100,
                   CreateClient (Obj 1) ''srv/AddTwoInts'' ''/add'',
                   WaitForService (Obj 3) (Num 500)]\<rparr>)"
proof -
  let ?new = "ROS2Interface ''gui'' ''/'' 100"
  let ?cur = "run mw_sample [Init] ?new"
  let ?alt = "run (mw_with unavailable) [Init] ?new"
  let ?mid = "?cur\<lparr>clients := (clients ?cur)(''/add'' \<mapsto> Obj 3),
                    trace := trace ?cur @ [CreateClient (node ?cur) ''srv/AddTwoInts'' ''/add'']\<rparr>"
  let ?amid = "?alt\<lparr>clients := (clients ?alt)(''/add'' \<mapsto> Obj 3),
                    trace := trace ?alt @ [CreateClient (node ?alt) ''srv/AddTwoInts'' ''/add'']\<rparr>"
  have st: "?cur = ?new\<lparr>node := Obj 1, isInitialized := True,
                       trace := [RclInit, RclNode ''gui'' ''/'', Spin (Obj 1) 100]\<rparr>"
    by (simp add: op_defs)
  have sa: "?alt = ?new\<lparr>node := Obj 1, isInitialized := True,
                       trace := [RclInit, RclNode ''gui'' ''/'', Spin (Obj 1) 100]\<rparr>"
    by (simp add: op_defs)
  have i: "isInitialized ?cur" unfolding st by simp
  have ia: "isInitialized ?alt" unfolding sa by simp
  have n: "clients ?cur ''/add'' = None" unfolding st by (simp add: ROS2Interface_def)
  have na: "clients ?alt ''/add'' = None" unfolding sa by (simp add: ROS2Interface_def)
  have o: "is_obj (Obj 3)" by simp
  have tt: "truthy (Bool True)" by simp
  have ff: "\<not> truthy (Bool False)" by simp
  have r: "clients ?cur ''/add'' = Some (Obj 3) \<and> ?mid = ?cur \<or>
           clients ?cur ''/add'' = None \<and>
           mw_sample (trace ?cur) (CreateClient (node ?cur) ''srv/AddTwoInts'' ''/add'') =
             Returns (Obj 3) \<and>
           ?mid = ?mid"
    unfolding st by (simp add: ROS2Interface_def small_nats)
  have ra: "clients ?alt ''/add'' = Some (Obj 3) \<and> ?amid = ?alt \<or>
           clients ?alt ''/add'' = None \<and>
           mw_with unavailable (trace ?alt)
             (CreateClient (node ?alt) ''srv/AddTwoInts'' ''/add'') = Returns (Obj 3) \<and>
           ?amid = ?amid"
    unfolding sa by (simp add: ROS2Interface_def mw_with_def small_nats)
  have w: "mw_sample (trace ?mid) (WaitForService (Obj 3) (timeoutMs_default Undefined)) =
             Returns (Bool True)"
    by simp
  have wa: "mw_with unavailable (trace ?amid)
              (WaitForService (Obj 3) (timeoutMs_default (Num 500))) = Returns (Bool False)"
    by (simp add: mw_with_def)
  note A = callService_availability [OF refl i r o w, where req = "Obj 70"]
  note B = callService_availability [OF refl ia ra o wa, where req = "Obj 70"]
  have a: "callService mw_sample ''/add'' ''srv/AddTwoInts'' (Obj 70) Undefined ?cur =
     (Inr (Obj 5),
      ?new\<lparr>node := Obj 1, clients := [''/add'' \<mapsto> Obj 3], isInitialized := True,
         trace := [RclInit, RclNode ''gui'' ''/'', Spin (Obj 1) 100,
                   CreateClient (Obj 1) ''srv/AddTwoInts'' ''/add'',
                   WaitForService (Obj 3) (Num 2000), SendRequest (Obj 3) (Obj 70)]\<rparr>)"
    unfolding A unfolding st
    by (simp add: ROS2Interface_def timeoutMs_default_def small_nats)
  have b: "callService (mw_with unavailable) ''/add'' ''srv/AddTwoInts'' (Obj 70) (Num 500) ?alt =
     (Inl (ServiceUnavailable ''/add''),
      ?new\<lparr>node := Obj 1, clients := [''/add'' \<mapsto> Obj 3], isInitialized := True,
         trace := [RclInit, RclNode ''gui'' ''/'', Spin (Obj 1) 100,
                   CreateClient (Obj 1) ''srv/AddTwoInts'' ''/add'',
                   WaitForService (Obj 3) (Num 500)]\<rparr>)"
    unfolding B unfolding sa
    by (simp add: ROS2Interface_def timeoutMs_default_def)
  show ?thesis
    by (intro conjI i n o tt a ia na ff b)
qed

text \<open>
  C6. \<open>sendActionGoal\<close> on an initialized session reached from a new one, with the
  action client \<open>c\<close> cached or created just now and a successful availability wait:
  when \<open>sendGoal\<close> returns the goal handle \<open>g\<close> and \<open>isAccepted\<close> returns
  \<open>acc\<close>, a falsy \<open>acc\<close> makes the call fail with the goal-rejected error, the
  history ending with \<open>isAccepted\<close> (no result is requested), and a truthy \<open>acc\<close>
  makes it request the result once and settle as \<open>getResult\<close> does. In every case
  the call has one outcome, which is a result value, the goal-rejected error, or a
  failure of the middleware.
\<close>

theorem sendActionGoal_outcomes:
  assumes "s = run mw ops (ROS2Interface n ns t)" and "isInitialized s"
    and "actionClients s name = Some c \<and> s1 = s \<or>
         actionClients s name = None \<and>
         mw (trace s) (NewActionClient (node s) ty name) = Returns c \<and>
         s1 = s\<lparr>actionClients := (actionClients s)(name \<mapsto> c),
                 trace := trace s @ [NewActionClient (node s) ty name]\<rparr>"
    and "is_obj c"
    and "mw (trace s1) (WaitForServer c (timeoutMs_default tmo)) = Returns r" and "truthy r"
  shows
    "(mw (trace s1 @ [WaitForServer c (timeoutMs_default tmo)]) (SendGoal c goal fb) =
        Returns g \<and> is_obj g \<and>
      mw (trace s1 @ [WaitForServer c (timeoutMs_default tmo), SendGoal c goal fb])
         (IsAccepted g) = Returns acc \<longrightarrow>
        sendActionGoal mw name ty goal fb tmo s =
          (if truthy acc
           then (settle (mw (trace s1 @ [WaitForServer c (timeoutMs_default tmo),
                                         SendGoal c goal fb, IsAccepted g])
                           (GetResult g)),
                 s1\<lparr>trace := trace s1 @ [WaitForServer c (timeoutMs_default tmo),
                                          SendGoal c goal fb, IsAccepted g, GetResult g]\<rparr>)
           else (Inl GoalRejected,
                 s1\<lparr>trace := trace s1 @ [WaitForServer c (timeoutMs_default tmo),
                                          SendGoal c goal fb, IsAccepted g]\<rparr>))) \<and>
     ((\<exists>v. fst (sendActionGoal mw name ty goal fb tmo s) = Inr v) \<or>
      fst (sendActionGoal mw name ty goal fb tmo s) = Inl GoalRejected \<or>
      (\<exists>m. fst (sendActionGoal mw name ty goal fb tmo s) = Inl (Underlying m)))"
proof -
  from assms(1,2) have o: "is_obj (node s)" using reachable_node by simp
  note p = sendActionGoal_prefix [OF assms(2) o assms(3) assms(4) assms(5) assms(6)]
  show ?thesis
  proof (intro conjI impI)
    assume "mw (trace s1 @ [WaitForServer c (timeoutMs_default tmo)]) (SendGoal c goal fb) =
        Returns g \<and> is_obj g \<and>
      mw (trace s1 @ [WaitForServer c (timeoutMs_default tmo), SendGoal c goal fb])
         (IsAccepted g) = Returns acc"
    then show "sendActionGoal mw name ty goal fb tmo s =
          (if truthy acc
           then (settle (mw (trace s1 @ [WaitForServer c (timeoutMs_default tmo),
                                         SendGoal c goal fb, IsAccepted g])
                           (GetResult g)),
                 s1\<lparr>trace := trace s1 @ [WaitForServer c (timeoutMs_default tmo),
                                          SendGoal c goal fb, IsAccepted g, GetResult g]\<rparr>)
           else (Inl GoalRejected,
                 s1\<lparr>trace := trace s1 @ [WaitForServer c (timeoutMs_default tmo),
                                          SendGoal c goal fb, IsAccepted g]\<rparr>))"
      by (simp add: p call_simps)
  next
    show "(\<exists>v. fst (sendActionGoal mw name ty goal fb tmo s) = Inr v) \<or>
      fst (sendActionGoal mw name ty goal fb tmo s) = Inl GoalRejected \<or>
      (\<exists>m. fst (sendActionGoal mw name ty goal fb tmo s) = Inl (Underlying m))"
      by (simp add: p call_simps settle_cases split: outcome.splits)
  qed
qed

theorem sendActionGoal_outcomes_witness:
  "isInitialized (run mw_sample [Init] (ROS2Interface ''gui'' ''/'' 100)) \<and>
   actionClients (run mw_sample [Init] (ROS2Interface ''gui'' ''/'' 100)) ''/fib'' = None \<and>
   is_obj (Obj 3) \<and> truthy (Bool True) \<and> is_obj (Obj 5) \<and>
   sendActionGoal mw_sample ''/fib'' ''action/Fibonacci'' (Obj 80) Undefined (Num 500)
     (run mw_sample [Init] (ROS2Interface ''gui'' ''/'' 100)) =
     (Inr (Obj 7),
      (ROS2Interface ''gui'' ''/'' 100)
        \<lparr>node := Obj 1, actionClients := [''/fib'' \<mapsto> Obj 3], isInitialized := True,
         trace := [RclInit, RclNode ''gui'' ''/'', Spin (Obj 1) 100,
                   NewActionClient (Obj 1) ''action/Fibonacci'' ''/fib'',
                   WaitForServer (Obj 3) (Num 500), SendGoal (Obj 3) (Obj 80) Undefined,
                   IsAccepted (Obj 5), GetResult (Obj 5)]\<rparr>) \<and>
   isInitialized (run (mw_with rejecting) [Init] (ROS2Interface ''gui'' ''/'' 100)) \<and>
   actionClients (run (mw_with rejecting) [Init] (ROS2Interface ''gui'' ''/'' 100)) ''/fib'' =
     None \<and>
   \<not> truthy (Bool False) \<and>
   sendActionGoal (mw_with rejecting) ''/fib'' ''action/Fibonacci'' (Obj 80) Undefined (Num 500)
     (run (mw_with rejecting) [Init] (ROS2Interface ''gui'' ''/'' 100)) =
     (Inl GoalRejected,
      (ROS2Interface ''gui'' ''/'' 100)
        \<lparr>node := Obj 1, actionClients := [''/fib'' \<mapsto> Obj 3], isInitialized := True,
         trace := [RclInit, RclNode ''gui'' ''/'', Spin (Obj 1) 100,
                   NewActionClient (Obj 1) ''action/Fibonacci'' ''/fib'',
                   WaitForServer (Obj 3) (Num 500), SendGoal (Obj 3) (Obj 80) Undefined,
                   IsAccepted (Obj 5)]\<rparr>)"
proof -
  let ?new = "ROS2Interface ''gui'' ''/'' 100"
  let ?cur = "run mw_sample [Init] ?new"
  let ?alt = "run (mw_with rejecting) [Init] ?new"
  let ?mid = "?cur\<lparr>actionClients := (actionClients ?cur)(''/fib'' \<mapsto> Obj 3),
                    trace := trace ?cur @
                      [NewActionClient (node ?cur) ''action/Fibonacci'' ''/fib'']\<rparr>"
  let ?amid = "?alt\<lparr>actionClients := (actionClients ?alt)(''/fib'' \<mapsto> Obj 3),
                    trace := trace ?alt @
                      [NewActionClient (node ?alt) ''action/Fibonacci'' ''/fib'']\<rparr>"
  have st: "?cur = ?new\<lparr>node := Obj 1, isInitialized := True,
                       trace := [RclInit, RclNode ''gui'' ''/'', Spin (Obj 1) 100]\<rparr>"
    by (simp add: op_defs)
  have sa: "?alt = ?new\<lparr>node := Obj 1, isInitialized := True,
                       trace := [RclInit, RclNode ''gui'' ''/'', Spin (Obj 1) 100]\<rparr>"
    by (simp add: op_defs)
  have i: "isInitialized ?cur" unfolding st by simp
  have ia: "isInitialized ?alt" unfolding sa by simp
  have n: "actionClients ?cur ''/fib'' = None" unfolding st by (simp add: ROS2Interface_def)
  have na: "actionClients ?alt ''/fib'' = None" unfolding sa by (simp add: ROS2Interface_def)
  have o: "is_obj (Obj 3)" by simp
  have og: "is_obj (Obj 5)" by simp
  have tt: "truthy (Bool True)" by simp
  have ff: "\<not> truthy (Bool False)" by simp
  have r: "actionClients ?cur ''/fib'' = Some (Obj 3) \<and> ?mid = ?cur \<or>
           actionClients ?cur ''/fib'' = None \<and>
           mw_sample (trace ?cur) (NewActionClient (node ?cur) ''action/Fibonacci'' ''/fib'') =
             Returns (Obj 3) \<and>
           ?mid = ?mid"
    unfolding st by (simp add: ROS2Interface_def small_nats)
  have ra: "actionClients ?alt ''/fib'' = Some (Obj 3) \<and> ?amid = ?alt \<or>
           actionClients ?alt ''/fib'' = None \<and>
           mw_with rejecting (trace ?alt)
             (NewActionClient (node ?alt) ''action/Fibonacci'' ''/fib'') = Returns (Obj 3) \<and>
           ?amid = ?amid"
    unfolding sa by (simp add: ROS2Interface_def mw_with_def small_nats)
  have w: "mw_sample (trace ?mid) (WaitForServer (Obj 3) (timeoutMs_default (Num 500))) =
             Returns (Bool True)"
    by simp
  have wa: "mw_with rejecting (trace ?amid)
              (WaitForServer (Obj 3) (timeoutMs_default (Num 500))) = Returns (Bool True)"
    by (simp add: mw_with_def)
  have g: "mw_sample (trace ?mid @ [WaitForServer (Obj 3) (timeoutMs_default (Num 500))])
             (SendGoal (Obj 3) (Obj 80) Undefined) = Returns (Obj 5) \<and>
           is_obj (Obj 5) \<and>
           mw_sample (trace ?mid @ [WaitForServer (Obj 3) (timeoutMs_default (Num 500)),
                                    SendGoal (Obj 3) (Obj 80) Undefined])
             (IsAccepted (Obj 5)) = Returns (Bool True)"
    unfolding st by (simp add: small_nats)
  have ga: "mw_with rejecting
              (trace ?amid @ [WaitForServer (Obj 3) (timeoutMs_default (Num 500))])
              (SendGoal (Obj 3) (Obj 80) Undefined) = Returns (Obj 5) \<and>
            is_obj (Obj 5) \<and>
            mw_with rejecting
              (trace ?amid @ [WaitForServer (Obj 3) (timeoutMs_default (Num 500)),
                              SendGoal (Obj 3) (Obj 80) Undefined])
              (IsAccepted (Obj 5)) = Returns (Bool False)"
    unfolding sa by (simp add: mw_with_def small_nats)
  note A = sendActionGoal_outcomes [OF refl i r o w tt, THEN conjunct1, THEN mp, OF g]
  note B = sendActionGoal_outcomes [OF refl ia ra o wa tt, THEN conjunct1, THEN mp, OF ga]
  have a: "sendActionGoal mw_sample ''/fib'' ''action/Fibonacci'' (Obj 80) Undefined (Num 500)
             ?cur =
     (Inr (Obj 7),
      ?new\<lparr>node := Obj 1, actionClients := [''/fib'' \<mapsto> Obj 3], isInitialized := True,
         trace := [RclInit, RclNode ''gui'' ''/'', Spin (Obj 1) 100,
                   NewActionClient (Obj 1) ''action/Fibonacci'' ''/fib'',
                   WaitForServer (Obj 3) (Num 500), SendGoal (Obj 3) (Obj 80) Undefined,
                   IsAccepted (Obj 5), GetResult (Obj 5)]\<rparr>)"
    unfolding A unfolding st
    by (simp add: ROS2Interface_def timeoutMs_default_def small_nats)
  have b: "sendActionGoal (mw_with rejecting) ''/fib'' ''action/Fibonacci'' (Obj 80) Undefined
             (Num 500) ?alt =
     (Inl GoalRejected,
      ?new\<lparr>node := Obj 1, actionClients := [''/fib'' \<mapsto> Obj 3], isInitialized := True,
         trace := [RclInit, RclNode ''gui'' ''/'', Spin (Obj 1) 100,
                   NewActionClient (Obj 1) ''action/Fibonacci'' ''/fib'',
                   WaitForServer (Obj 3) (Num 500), SendGoal (Obj 3) (Obj 80) Undefined,
                   IsAccepted (Obj 5)]\<rparr>)"
    unfolding B unfolding sa
    by (simp add: ROS2Interface_def timeoutMs_default_def)
  show ?thesis
    by (intro conjI i n o tt og a ia na ff b)
qed

text \<open>
  C7. \<open>unsubscribe\<close> in a state reached from a new session: if the topic has no
  tracked set, or the set does not contain the handle, nothing changes and nothing is
  raised. If the set contains the handle and \<open>destroySubscription\<close> returns, that is
  the one middleware call made, the handle leaves the set, and the topic's entry is
  removed when the set has become empty; a second \<open>unsubscribe\<close> with the same handle
  then changes nothing and raises nothing.
\<close>

theorem unsubscribe_tracked:
  assumes "s = run mw ops (ROS2Interface n ns t)"
  shows
    "((\<forall>subs. subscriptions s topicName = Some subs \<longrightarrow> h \<notin> subs) \<longrightarrow>
        unsubscribe mw topicName h s = (Inr Undefined, s)) \<and>
     (subscriptions s topicName = Some subs \<and> h \<in> subs \<and>
      mw (trace s) (DestroySubscription (node s) h) = Returns u \<longrightarrow>
        unsubscribe mw topicName h s =
          (Inr Undefined,
           s\<lparr>subscriptions :=
                (if subs - {h} = {} then (subscriptions s)(topicName := None)
                 else (subscriptions s)(topicName \<mapsto> subs - {h})),
             trace := trace s @ [DestroySubscription (node s) h]\<rparr>) \<and>
        unsubscribe mw topicName h (snd (unsubscribe mw topicName h s)) =
          (Inr Undefined, snd (unsubscribe mw topicName h s)))"
proof (intro conjI impI)
  assume "\<forall>subs. subscriptions s topicName = Some subs \<longrightarrow> h \<notin> subs"
  then show "unsubscribe mw topicName h s = (Inr Undefined, s)"
    by (rule unsubscribe_miss)
next
  assume a: "subscriptions s topicName = Some subs \<and> h \<in> subs \<and>
             mw (trace s) (DestroySubscription (node s) h) = Returns u"
  have "isInitialized s"
  proof (rule ccontr)
    assume "\<not> isInitialized s"
    with assms have "caches_empty s" using reachable_caches by simp
    with a show False by (simp add: caches_empty_def)
  qed
  with assms have o: "is_obj (node s)" using reachable_node by simp
  from a o show e: "unsubscribe mw topicName h s =
          (Inr Undefined,
           s\<lparr>subscriptions :=
                (if subs - {h} = {} then (subscriptions s)(topicName := None)
                 else (subscriptions s)(topicName \<mapsto> subs - {h})),
             trace := trace s @ [DestroySubscription (node s) h]\<rparr>)"
    by (simp add: unsubscribe_hit)
  show "unsubscribe mw topicName h (snd (unsubscribe mw topicName h s)) =
          (Inr Undefined, snd (unsubscribe mw topicName h s))"
    by (rule unsubscribe_miss) (simp add: e)
qed

theorem unsubscribe_tracked_witness:
  "subscriptions
     (run mw_sample [Init, SubscribeOp ''/chatter'' ''std_msgs/msg/String'' (Obj 50)]
        (ROS2Interface ''gui'' ''/'' 100)) ''/chatter'' = Some {Obj 3} \<and>
   Obj 9 \<notin> {Obj 3} \<and>
   unsubscribe mw_sample ''/chatter'' (Obj 9)
     (run mw_sample [Init, SubscribeOp ''/chatter'' ''std_msgs/msg/String'' (Obj 50)]
        (ROS2Interface ''gui'' ''/'' 100)) =
     (Inr Undefined,
      run mw_sample [Init, SubscribeOp ''/chatter'' ''std_msgs/msg/String'' (Obj 50)]
        (ROS2Interface ''gui'' ''/'' 100)) \<and>
   Obj 3 \<in> {Obj 3} \<and>
   unsubscribe mw_sample ''/chatter'' (Obj 3)
     (run mw_sample [Init, SubscribeOp ''/chatter'' ''std_msgs/msg/String'' (Obj 50)]
        (ROS2Interface ''gui'' ''/'' 100)) =
     (Inr Undefined,
      (ROS2Interface ''gui'' ''/'' 100)
        \<lparr>node := Obj 1, isInitialized := True,
         trace := [RclInit, RclNode ''gui'' ''/'', Spin (Obj 1) 100,
                   CreateSubscription (Obj 1) ''std_msgs/msg/String'' ''/chatter'' (Obj 50),
                   DestroySubscription (Obj 1) (Obj 3)]\<rparr>) \<and>
   unsubscribe mw_sample ''/chatter'' (Obj 3)
     (snd (unsubscribe mw_sample ''/chatter'' (Obj 3)
        (run mw_sample [Init, SubscribeOp ''/chatter'' ''std_msgs/msg/String'' (Obj 50)]
           (ROS2Interface ''gui'' ''/'' 100)))) =
     (Inr Undefined,
      snd (unsubscribe mw_sample ''/chatter'' (Obj 3)
        (run mw_sample [Init, SubscribeOp ''/chatter'' ''std_msgs/msg/String'' (Obj 50)]
           (ROS2Interface ''gui'' ''/'' 100))))"
proof -
  let ?new = "ROS2Interface ''gui'' ''/'' 100"
  let ?cur = "run mw_sample [Init, SubscribeOp ''/chatter'' ''std_msgs/msg/String'' (Obj 50)]
                ?new"
  have st: "?cur = ?new\<lparr>node := Obj 1, subscriptions := [''/chatter'' \<mapsto> {Obj 3}],
                isInitialized := True,
                trace := [RclInit, RclNode ''gui'' ''/'', Spin (Obj 1) 100,
                  CreateSubscription (Obj 1) ''std_msgs/msg/String'' ''/chatter'' (Obj 50)]\<rparr>"
    by (simp add: op_defs small_nats)
  have sub: "subscriptions ?cur ''/chatter'' = Some {Obj 3}" unfolding st by simp
  have out: "Obj 9 \<notin> {Obj 3}" by simp
  have mem: "Obj 3 \<in> {Obj 3}" by simp
  have h1: "\<forall>subs. subscriptions ?cur ''/chatter'' = Some subs \<longrightarrow> Obj 9 \<notin> subs"
    unfolding sub by simp
  have d: "mw_sample (trace ?cur) (DestroySubscription (node ?cur) (Obj 3)) = Returns (Obj 4)"
    unfolding st by (simp add: small_nats)
  have h2: "subscriptions ?cur ''/chatter'' = Some {Obj 3} \<and> Obj 3 \<in> {Obj 3} \<and>
            mw_sample (trace ?cur) (DestroySubscription (node ?cur) (Obj 3)) = Returns (Obj 4)"
    by (intro conjI sub mem d)
  note A = unsubscribe_tracked [OF refl, where topicName = "''/chatter''" and h = "Obj 9",
      THEN conjunct1, THEN mp, OF h1]
  note B = unsubscribe_tracked [OF refl, where topicName = "''/chatter''" and h = "Obj 3"
      and subs = "{Obj 3}" and u = "Obj 4", THEN conjunct2, THEN mp, OF h2]
  have b1: "unsubscribe mw_sample ''/chatter'' (Obj 3) ?cur =
     (Inr Undefined,
      ?new\<lparr>node := Obj 1, isInitialized := True,
         trace := [RclInit, RclNode ''gui'' ''/'', Spin (Obj 1) 100,
                   CreateSubscription (Obj 1) ''std_msgs/msg/String'' ''/chatter'' (Obj 50),
                   DestroySubscription (Obj 1) (Obj 3)]\<rparr>)"
    unfolding B [THEN conjunct1] unfolding st by (simp add: ROS2Interface_def)
  show ?thesis
    by (intro conjI sub out A mem b1 B [THEN conjunct2])
qed

text \<open>
  C8. \<open>init()\<close> on a session that is already initialized returns at once: the
  result is \<open>undefined\<close> and the session, with the history of middleware calls, is
  exactly as before, so neither the context nor the node is created again.
\<close>

theorem init_idempotent:
  "isInitialized s \<Longrightarrow> init mw s = (Inr Undefined, s)"
  by (simp add: init_def)

theorem init_idempotent_witness:
  "isInitialized (run mw_sample [Init] default_session) \<and>
   init mw_sample (run mw_sample [Init] default_session) =
     (Inr Undefined, run mw_sample [Init] default_session)"
proof -
  have h: "isInitialized (run mw_sample [Init] default_session)"
    by (simp add: op_defs)
  show ?thesis using h init_idempotent [OF h] by simp
qed

text \<open>
  C9. \<open>declareParam\<close> on an initialized session reached from a new one: when
  \<open>hasParameter\<close> returns a truthy value, no \<open>declareParameter\<close> call is made;
  when it returns a falsy value, exactly one is made. Two consecutive calls for one name,
  on a node that does not have the parameter and reports it present once declared, make
  one \<open>declareParameter\<close> call in all.
\<close>

theorem declareParam_idempotent:
  assumes "s = run mw ops (ROS2Interface n ns t)" and "isInitialized s"
  shows
    "(mw (trace s) (HasParameter (node s) name) = Returns p \<and> truthy p \<longrightarrow>
        declareParam mw name v s =
          (Inr Undefined, s\<lparr>trace := trace s @ [HasParameter (node s) name]\<rparr>)) \<and>
     (mw (trace s) (HasParameter (node s) name) = Returns p \<and> \<not> truthy p \<longrightarrow>
        declareParam mw name v s =
          (case mw (trace s @ [HasParameter (node s) name])
                  (DeclareParameter (node s) name v) of
             Returns u \<Rightarrow> Inr Undefined
           | Throws m \<Rightarrow> Inl (Underlying m),
           s\<lparr>trace := trace s @ [HasParameter (node s) name,
                                   DeclareParameter (node s) name v]\<rparr>)) \<and>
     (mw (trace s) (HasParameter (node s) name) = Returns p \<and> \<not> truthy p \<and>
      mw (trace s @ [HasParameter (node s) name]) (DeclareParameter (node s) name v) =
        Returns u \<and>
      mw (trace s @ [HasParameter (node s) name, DeclareParameter (node s) name v])
         (HasParameter (node s) name) = Returns p' \<and> truthy p' \<longrightarrow>
        results mw [DeclareParamOp name v, DeclareParamOp name v'] s =
          [Inr Undefined, Inr Undefined] \<and>
        run mw [DeclareParamOp name v, DeclareParamOp name v'] s =
          s\<lparr>trace := trace s @ [HasParameter (node s) name,
                                  DeclareParameter (node s) name v,
                                  HasParameter (node s) name]\<rparr> \<and>
        length (filter (declares name)
                  (trace (run mw [DeclareParamOp name v, DeclareParamOp name v'] s))) =
          Suc (length (filter (declares name) (trace s))))"
proof -
  from assms have o: "is_obj (node s)" using reachable_node by simp
  show ?thesis
  proof (intro conjI impI)
    assume "mw (trace s) (HasParameter (node s) name) = Returns p \<and> truthy p"
    with assms(2) o show "declareParam mw name v s =
          (Inr Undefined, s\<lparr>trace := trace s @ [HasParameter (node s) name]\<rparr>)"
      by (simp add: declareParam_present)
  next
    assume "mw (trace s) (HasParameter (node s) name) = Returns p \<and> \<not> truthy p"
    with assms(2) o show "declareParam mw name v s =
          (case mw (trace s @ [HasParameter (node s) name])
                  (DeclareParameter (node s) name v) of
             Returns u \<Rightarrow> Inr Undefined
           | Throws m \<Rightarrow> Inl (Underlying m),
           s\<lparr>trace := trace s @ [HasParameter (node s) name,
                                   DeclareParameter (node s) name v]\<rparr>)"
      by (simp add: declareParam_absent)
  next
    assume a: "mw (trace s) (HasParameter (node s) name) = Returns p \<and> \<not> truthy p \<and>
      mw (trace s @ [HasParameter (node s) name]) (DeclareParameter (node s) name v) =
        Returns u \<and>
      mw (trace s @ [HasParameter (node s) name, DeclareParameter (node s) name v])
         (HasParameter (node s) name) = Returns p' \<and> truthy p'"
    let ?s1 = "s\<lparr>trace := trace s @ [HasParameter (node s) name,
                                       DeclareParameter (node s) name v]\<rparr>"
    from a assms(2) o have first: "declareParam mw name v s = (Inr Undefined, ?s1)"
      by (simp add: declareParam_absent)
    from a assms(2) o have second: "declareParam mw name v' ?s1 =
        (Inr Undefined, ?s1\<lparr>trace := trace ?s1 @ [HasParameter (node ?s1) name]\<rparr>)"
      using declareParam_present [of ?s1 mw name p' v'] by simp
    show "results mw [DeclareParamOp name v, DeclareParamOp name v'] s =
          [Inr Undefined, Inr Undefined]"
      by (simp add: first second)
    show r: "run mw [DeclareParamOp name v, DeclareParamOp name v'] s =
          s\<lparr>trace := trace s @ [HasParameter (node s) name,
                                  DeclareParameter (node s) name v,
                                  HasParameter (node s) name]\<rparr>"
      by (simp add: first second)
    show "length (filter (declares name)
                  (trace (run mw [DeclareParamOp name v, DeclareParamOp name v'] s))) =
          Suc (length (filter (declares name) (trace s)))"
      unfolding r by simp
  qed
qed

theorem declareParam_idempotent_witness:
  "isInitialized (run mw_sample [Init] (ROS2Interface ''gui'' ''/'' 100)) \<and>
   mw_sample (trace (run mw_sample [Init] (ROS2Interface ''gui'' ''/'' 100)))
     (HasParameter (Obj 1) ''rate'') = Returns (Bool False) \<and>
   \<not> truthy (Bool False) \<and>
   declareParam mw_sample ''rate'' (Num 10) (run mw_sample [Init] (ROS2Interface ''gui'' ''/'' 100)) =
     (Inr Undefined,
      (ROS2Interface ''gui'' ''/'' 100)
        \<lparr>node := Obj 1, isInitialized := True,
         trace := [RclInit, RclNode ''gui'' ''/'', Spin (Obj 1) 100,
                   HasParameter (Obj 1) ''rate'', DeclareParameter (Obj 1) ''rate'' (Num 10)]\<rparr>) \<and>
   truthy (Bool True) \<and>
   results mw_sample [DeclareParamOp ''rate'' (Num 10), DeclareParamOp ''rate'' (Num 20)]
     (run mw_sample [Init] (ROS2Interface ''gui'' ''/'' 100)) = [Inr Undefined, Inr Undefined] \<and>
   trace (run mw_sample [DeclareParamOp ''rate'' (Num 10), DeclareParamOp ''rate'' (Num 20)]
     (run mw_sample [Init] (ROS2Interface ''gui'' ''/'' 100))) =
     [RclInit, RclNode ''gui'' ''/'', Spin (Obj 1) 100,
      HasParameter (Obj 1) ''rate'', DeclareParameter (Obj 1) ''rate'' (Num 10),
      HasParameter (Obj 1) ''rate''] \<and>
   isInitialized
     (run mw_sample [Init, DeclareParamOp ''rate'' (Num 10)] (ROS2Interface ''gui'' ''/'' 100)) \<and>
   declareParam mw_sample ''rate'' (Num 20)
     (run mw_sample [Init, DeclareParamOp ''rate'' (Num 10)] (ROS2Interface ''gui'' ''/'' 100)) =
     (Inr Undefined,
      (ROS2Interface ''gui'' ''/'' 100)
        \<lparr>node := Obj 1, isInitialized := True,
         trace := [RclInit, RclNode ''gui'' ''/'', Spin (Obj 1) 100,
                   HasParameter (Obj 1) ''rate'', DeclareParameter (Obj 1) ''rate'' (Num 10),
                   HasParameter (Obj 1) ''rate'']\<rparr>)"
proof -
  let ?new = "ROS2Interface ''gui'' ''/'' 100"
  let ?cur = "run mw_sample [Init] ?new"
  let ?nxt = "run mw_sample [Init, DeclareParamOp ''rate'' (Num 10)] ?new"
  have st: "?cur = ?new\<lparr>node := Obj 1, isInitialized := True,
                       trace := [RclInit, RclNode ''gui'' ''/'', Spin (Obj 1) 100]\<rparr>"
    by (simp add: op_defs)
  have st': "?nxt = ?new\<lparr>node := Obj 1, isInitialized := True,
                       trace := [RclInit, RclNode ''gui'' ''/'', Spin (Obj 1) 100,
                         HasParameter (Obj 1) ''rate'',
                         DeclareParameter (Obj 1) ''rate'' (Num 10)]\<rparr>"
    by (simp add: op_defs)
  have i: "isInitialized ?cur" unfolding st by simp
  have i': "isInitialized ?nxt" unfolding st' by simp
  have nd: "node ?cur = Obj 1" unfolding st by simp
  have has: "mw_sample (trace ?cur) (HasParameter (Obj 1) ''rate'') = Returns (Bool False)"
    unfolding st by simp
  have f: "\<not> truthy (Bool False)" by simp
  have tt: "truthy (Bool True)" by simp
  have h2: "mw_sample (trace ?cur) (HasParameter (node ?cur) ''rate'') = Returns (Bool False) \<and>
            \<not> truthy (Bool False)"
    unfolding st by simp
  have h3: "mw_sample (trace ?cur) (HasParameter (node ?cur) ''rate'') = Returns (Bool False) \<and>
            \<not> truthy (Bool False) \<and>
            mw_sample (trace ?cur @ [HasParameter (node ?cur) ''rate''])
              (DeclareParameter (node ?cur) ''rate'' (Num 10)) = Returns (Obj 4) \<and>
            mw_sample (trace ?cur @ [HasParameter (node ?cur) ''rate'',
                                     DeclareParameter (node ?cur) ''rate'' (Num 10)])
              (HasParameter (node ?cur) ''rate'') = Returns (Bool True) \<and>
            truthy (Bool True)"
    unfolding st by (simp add: small_nats)
  have h1: "mw_sample (trace ?nxt) (HasParameter (node ?nxt) ''rate'') = Returns (Bool True) \<and>
            truthy (Bool True)"
    unfolding st' by simp
  note A = declareParam_idempotent [OF refl i', where name = "''rate''" and p = "Bool True"
      and v = "Num 20", THEN conjunct1, THEN mp, OF h1]
  note B = declareParam_idempotent [OF refl i, where name = "''rate''" and p = "Bool False"
      and v = "Num 10", THEN conjunct2, THEN conjunct1, THEN mp, OF h2]
  note C = declareParam_idempotent [OF refl i, where name = "''rate''" and p = "Bool False"
      and v = "Num 10" and u = "Obj 4" and p' = "Bool True" and v' = "Num 20",
      THEN conjunct2, THEN conjunct2, THEN mp, OF h3]
  have a: "declareParam mw_sample ''rate'' (Num 20) ?nxt =
     (Inr Undefined,
      ?new\<lparr>node := Obj 1, isInitialized := True,
         trace := [RclInit, RclNode ''gui'' ''/'', Spin (Obj 1) 100,
                   HasParameter (Obj 1) ''rate'', DeclareParameter (Obj 1) ''rate'' (Num 10),
                   HasParameter (Obj 1) ''rate'']\<rparr>)"
    unfolding A unfolding st' by simp
  have b: "declareParam mw_sample ''rate'' (Num 10) ?cur =
     (Inr Undefined,
      ?new\<lparr>node := Obj 1, isInitialized := True,
         trace := [RclInit, RclNode ''gui'' ''/'', Spin (Obj 1) 100,
                   HasParameter (Obj 1) ''rate'',
                   DeclareParameter (Obj 1) ''rate'' (Num 10)]\<rparr>)"
    unfolding B unfolding st by simp
  have c: "trace (run mw_sample [DeclareParamOp ''rate'' (Num 10), DeclareParamOp ''rate'' (Num 20)]
              ?cur) =
     [RclInit, RclNode ''gui'' ''/'', Spin (Obj 1) 100,
      HasParameter (Obj 1) ''rate'', DeclareParameter (Obj 1) ''rate'' (Num 10),
      HasParameter (Obj 1) ''rate'']"
    unfolding C [THEN conjunct2, THEN conjunct1] unfolding st by simp
  show ?thesis
    by (intro conjI i has f b tt C [THEN conjunct1] c i' a)
qed

text \<open>
  C10. When the subscriptions cache has no entry for the topic, or the entry does not
  contain the handle, \<open>unsubscribe\<close> returns without error and leaves the session and
  the history of middleware calls as they were, in every session state, initialized or
  not. In no state at all does \<open>unsubscribe\<close> raise the not-initialized error.
\<close>

theorem unsubscribe_untracked_silent:
  "((\<forall>subs. subscriptions s topicName = Some subs \<longrightarrow> h \<notin> subs) \<longrightarrow>
      unsubscribe mw topicName h s = (Inr Undefined, s)) \<and>
   fst (unsubscribe mw topicName h s) \<noteq> Inl NotInitialized"
  by (simp add: unsubscribe_def call_simps split: option.splits outcome.splits)

theorem unsubscribe_untracked_silent_witness:
  "subscriptions default_session ''/chatter'' = None \<and>
   \<not> isInitialized default_session \<and>
   unsubscribe mw_sample ''/chatter'' (Obj 7) default_session = (Inr Undefined, default_session) \<and>
   fst (unsubscribe mw_sample ''/chatter'' (Obj 7) default_session) \<noteq> Inl NotInitialized"
proof -
  have h: "subscriptions default_session ''/chatter'' = None"
    by (simp add: op_defs)
  have u: "\<not> isInitialized default_session"
    by (simp add: op_defs)
  show ?thesis
    using h u unsubscribe_untracked_silent [of default_session "''/chatter''" "Obj 7" mw_sample]
    by simp
qed

end
